theory Spec2Isabelle
  imports Complex_Main
begin

section \<open>Errors\<close>

text \<open>
  Every way in which the JavaScript aborts is a value of \<open>error\<close>.
  \<open>ParserContext.throwError(location, message)\<close> prints a diagnostic and calls
  \<open>process.exit()\<close>; the model returns \<open>ParserError location message\<close>.
  A property read or method call on \<open>undefined\<close> is a \<open>TypeError\<close>; the other
  constructors are the \<open>Error\<close> objects the code throws itself.
\<close>

datatype error =
    ParserError string string
  | TypeError
  | UndefinedVariable string
  | NotImplemented
  | MalformedIdentifier string

section \<open>Identifiers (identifiers.js)\<close>

text \<open>\<open>String.prototype.split\<close> with a one-character separator: the pieces between the
  separators, \<open>[""]\<close> for the empty string.\<close>

fun split_on :: "char \<Rightarrow> string \<Rightarrow> string list" where
  "split_on c [] = [[]]"
| "split_on c (x # xs) =
     (if x = c then [] # split_on c xs
      else (case split_on c xs of
              [] \<Rightarrow> [[x]]
            | p # ps \<Rightarrow> (x # p) # ps))"

definition asIdentifier :: "string \<Rightarrow> string \<Rightarrow> string" where
  "asIdentifier namespace name = namespace @ '':'' @ name"

text \<open>
  \<open>parseIdentifier(identifierString, defaultNamespace, context)\<close>. The third argument is
  optional in the source: \<open>hasContext\<close> says whether the caller passed one. With more than
  two parts the source calls \<open>context.throwError\<close>, which exits the process, or is a
  \<open>TypeError\<close> when no context was passed.
\<close>

definition parseIdentifier :: "string \<Rightarrow> string \<Rightarrow> bool \<Rightarrow> error + string" where
  "parseIdentifier identifierString defaultNamespace hasContext =
     (let parts = take 3 (split_on CHR '':'' identifierString) in
      if length parts > 2 then
        (if hasContext
         then Inl (ParserError ''identifier'' (''Malformed identifier '' @ identifierString @ ''.''))
         else Inl TypeError)
      else if length parts = 2 then Inr (asIdentifier (parts ! 0) (parts ! 1))
      else Inr (asIdentifier defaultNamespace (parts ! 0)))"

section \<open>JavaScript numbers and values\<close>

text \<open>
  A finite double is modelled by the rational it denotes, so rounding, overflow and the
  sign of zero are outside the model; the non-finite doubles are kept, because a division
  by zero and arithmetic on \<open>undefined\<close> produce them.
\<close>

datatype number = Fin rat | PosInf | NegInf | NaN

datatype jsval = Number number | Boolean bool | Undefined

fun is_neg :: "number \<Rightarrow> bool" where
  "is_neg (Fin a) = (a < 0)"
| "is_neg NegInf = True"
| "is_neg PosInf = False"
| "is_neg NaN = False"

fun num_neg :: "number \<Rightarrow> number" where
  "num_neg (Fin a) = Fin (- a)"
| "num_neg PosInf = NegInf"
| "num_neg NegInf = PosInf"
| "num_neg NaN = NaN"

definition num_add :: "number \<Rightarrow> number \<Rightarrow> number" where
  "num_add x y =
     (case (x, y) of
        (Fin a, Fin b) \<Rightarrow> Fin (a + b)
      | (NaN, _) \<Rightarrow> NaN
      | (_, NaN) \<Rightarrow> NaN
      | (Fin a, i) \<Rightarrow> i
      | (i, Fin b) \<Rightarrow> i
      | (i, j) \<Rightarrow> (if i = j then i else NaN))"

definition num_sub :: "number \<Rightarrow> number \<Rightarrow> number" where
  "num_sub x y = num_add x (num_neg y)"

definition num_mul :: "number \<Rightarrow> number \<Rightarrow> number" where
  "num_mul x y =
     (case (x, y) of
        (Fin a, Fin b) \<Rightarrow> Fin (a * b)
      | _ \<Rightarrow> (if x = NaN \<or> y = NaN \<or> x = Fin 0 \<or> y = Fin 0 then NaN
              else if is_neg x = is_neg y then PosInf else NegInf))"

definition num_div :: "number \<Rightarrow> number \<Rightarrow> number" where
  "num_div x y =
     (case (x, y) of
        (Fin a, Fin b) \<Rightarrow>
          (if b = 0 then (if a = 0 then NaN else if 0 < a then PosInf else NegInf)
           else Fin (a / b))
      | (NaN, _) \<Rightarrow> NaN
      | (_, NaN) \<Rightarrow> NaN
      | (Fin a, _) \<Rightarrow> Fin 0
      | (i, Fin b) \<Rightarrow> (if is_neg i = (b < 0) then PosInf else NegInf)
      | _ \<Rightarrow> NaN)"

definition trunc :: "rat \<Rightarrow> int" where
  "trunc q = (if 0 \<le> q then \<lfloor>q\<rfloor> else \<lceil>q\<rceil>)"

definition num_rem :: "number \<Rightarrow> number \<Rightarrow> number" where
  "num_rem x y =
     (case (x, y) of
        (Fin a, Fin b) \<Rightarrow> (if b = 0 then NaN else Fin (a - b * of_int (trunc (a / b))))
      | (Fin a, PosInf) \<Rightarrow> Fin a
      | (Fin a, NegInf) \<Rightarrow> Fin a
      | _ \<Rightarrow> NaN)"

definition num_less :: "number \<Rightarrow> number \<Rightarrow> bool" where
  "num_less x y =
     (case (x, y) of
        (Fin a, Fin b) \<Rightarrow> a < b
      | (NegInf, Fin b) \<Rightarrow> True
      | (NegInf, PosInf) \<Rightarrow> True
      | (Fin a, PosInf) \<Rightarrow> True
      | _ \<Rightarrow> False)"

definition num_eq :: "number \<Rightarrow> number \<Rightarrow> bool" where
  "num_eq x y = (x \<noteq> NaN \<and> x = y)"

definition num_le :: "number \<Rightarrow> number \<Rightarrow> bool" where
  "num_le x y = (num_less x y \<or> num_eq x y)"

text \<open>The conversions \<open>ToNumber\<close> and \<open>ToBoolean\<close>, and \<open>===\<close>, on the values that occur.\<close>

fun toNumber :: "jsval \<Rightarrow> number" where
  "toNumber (Number n) = n"
| "toNumber (Boolean b) = (if b then Fin 1 else Fin 0)"
| "toNumber Undefined = NaN"

fun toBoolean :: "jsval \<Rightarrow> bool" where
  "toBoolean (Number n) = (n \<noteq> NaN \<and> n \<noteq> Fin 0)"
| "toBoolean (Boolean b) = b"
| "toBoolean Undefined = False"

fun strict_eq :: "jsval \<Rightarrow> jsval \<Rightarrow> bool" where
  "strict_eq (Number x) (Number y) = num_eq x y"
| "strict_eq (Boolean a) (Boolean b) = (a = b)"
| "strict_eq Undefined Undefined = True"
| "strict_eq _ _ = False"

text \<open>
  The VariableStore is a plain object: a key is absent, or holds a value, which may be
  \<open>undefined\<close> itself. \<open>variables[name]\<close> reads \<open>undefined\<close> in both cases.
\<close>

type_synonym variables = "string \<rightharpoonup> jsval"

definition lookup :: "variables \<Rightarrow> string \<Rightarrow> jsval" where
  "lookup vars name = (case vars name of None \<Rightarrow> Undefined | Some v \<Rightarrow> v)"

section \<open>Characters, regular expressions and literals\<close>

text \<open>Strings are ASCII. The character classes \<open>\d\<close>, \<open>[A-Za-z]\<close>, \<open>\w\<close>, \<open>\s\<close>.\<close>

definition is_digit :: "char \<Rightarrow> bool" where
  "is_digit c = (c \<in> set ''0123456789'')"

definition is_alpha :: "char \<Rightarrow> bool" where
  "is_alpha c = (c \<in> set ''abcdefghijklmnopqrstuvwxyzABCDEFGHIJKLMNOPQRSTUVWXYZ'')"

definition is_word :: "char \<Rightarrow> bool" where
  "is_word c = (is_alpha c \<or> is_digit c \<or> c = CHR ''_'')"

definition is_space :: "char \<Rightarrow> bool" where
  "is_space c = (c \<in> set [CHR '' '', CHR 0x09, CHR 0x0A, CHR 0x0B, CHR 0x0C, CHR 0x0D])"

definition is_line_terminator :: "char \<Rightarrow> bool" where
  "is_line_terminator c = (c = CHR 0x0A \<or> c = CHR 0x0D)"

definition trim :: "string \<Rightarrow> string" where
  "trim s = rev (dropWhile is_space (rev (dropWhile is_space s)))"

definition starts_with :: "string \<Rightarrow> string \<Rightarrow> bool" where
  "starts_with s p = (take (length p) s = p)"

text \<open>
  A matcher is a regular expression anchored at the start of its input: it returns the
  matched prefix (or what replaces it) and the rest. \<open>match_all\<close> is
  \<open>String.prototype.match\<close> with a global regular expression: the successive matches,
  skipping the characters where none starts. \<open>replace_all\<close> is
  \<open>String.prototype.replace\<close> with a global regular expression.
\<close>

type_synonym matcher = "string \<Rightarrow> (string \<times> string) option"

function match_all :: "matcher \<Rightarrow> string \<Rightarrow> string list" where
  "match_all m [] = []"
| "match_all m (c # cs) =
     (case m (c # cs) of
        None \<Rightarrow> match_all m cs
      | Some (t, r) \<Rightarrow>
          (if length r < length (c # cs) then t # match_all m r else match_all m cs))"
  by pat_completeness auto
termination
  by (relation "measure (\<lambda>(m, s). length s)") auto

function replace_all :: "matcher \<Rightarrow> string \<Rightarrow> string" where
  "replace_all m [] = []"
| "replace_all m (c # cs) =
     (case m (c # cs) of
        None \<Rightarrow> c # replace_all m cs
      | Some (t, r) \<Rightarrow>
          (if length r < length (c # cs) then t @ replace_all m r else c # replace_all m cs))"
  by pat_completeness auto
termination
  by (relation "measure (\<lambda>(m, s). length s)") auto

text \<open>\<open>numberRegex = /^\d+(\.\d+)?$/\<close> and \<open>variableRegex = /^[a-zA-Z_][a-zA-Z0-9_:]*$/\<close>.\<close>

definition numberRegex :: "string \<Rightarrow> bool" where
  "numberRegex s =
     (let ip = takeWhile is_digit s; r = dropWhile is_digit s in
      ip \<noteq> [] \<and> (r = [] \<or> (hd r = CHR ''.'' \<and> tl r \<noteq> [] \<and> list_all is_digit (tl r))))"

definition variableRegex :: "string \<Rightarrow> bool" where
  "variableRegex s =
     (case s of
        [] \<Rightarrow> False
      | c # cs \<Rightarrow> (is_alpha c \<or> c = CHR ''_'') \<and> list_all (\<lambda>d. is_word d \<or> d = CHR '':'') cs)"

text \<open>
  \<open>parseFloat\<close> and \<open>Number\<close> are only applied to tokens of the shape
  \<open>\d+(\.\d+)?\<close>, with an optional leading minus sign in a line typed by the player.
\<close>

definition digit_val :: "char \<Rightarrow> nat" where
  "digit_val c = length (takeWhile (\<lambda>d. d \<noteq> c) ''0123456789'')"

definition nat_of_digits :: "string \<Rightarrow> nat" where
  "nat_of_digits ds = foldl (\<lambda>a c. 10 * a + digit_val c) 0 ds"

definition decimal :: "string \<Rightarrow> rat" where
  "decimal s =
     (let ip = takeWhile is_digit s; fp = drop (Suc (length ip)) s in
      of_nat (nat_of_digits ip) + of_nat (nat_of_digits fp) / 10 ^ length fp)"

definition signed_decimal :: "string \<Rightarrow> rat" where
  "signed_decimal s =
     (case s of
        [] \<Rightarrow> 0
      | c # cs \<Rightarrow> (if c = CHR ''-'' then - decimal cs else decimal s))"

text \<open>The index of the last occurrence of an element, \<open>-1\<close> when there is none
  (\<open>lastIndexOf\<close>).\<close>

fun lastIndexOf_from :: "'a list \<Rightarrow> 'a \<Rightarrow> int \<Rightarrow> int \<Rightarrow> int" where
  "lastIndexOf_from [] x k found = found"
| "lastIndexOf_from (y # ys) x k found = lastIndexOf_from ys x (k + 1) (if y = x then k else found)"

definition lastIndexOf :: "'a list \<Rightarrow> 'a \<Rightarrow> int" where
  "lastIndexOf xs x = lastIndexOf_from xs x 0 (-1)"

text \<open>The number \<open>-?\d+(?:\.\d+)?\<close> at the start of a string.\<close>

definition lex_number :: matcher where
  "lex_number s =
     (let sign = (if starts_with s ''-'' then ''-'' else []);
          r0 = drop (length sign) s;
          ip = takeWhile is_digit r0;
          r1 = dropWhile is_digit r0 in
      if ip = [] then None
      else (case r1 of
              d # e # r' \<Rightarrow>
                (if d = CHR ''.'' \<and> is_digit e
                 then Some (sign @ ip @ [d] @ takeWhile is_digit (e # r'), dropWhile is_digit (e # r'))
                 else Some (sign @ ip, r1))
            | _ \<Rightarrow> Some (sign @ ip, r1)))"

section \<open>Actions (class Action)\<close>

text \<open>
  \<open>actionTokenRegex = /\d+(\.\d+)?|[a-zA-Z_][a-zA-Z0-9_:]*|[+\-*/%()]/g\<close>, one
  alternative after the other at the current position.
\<close>

definition actionTokenRegex :: matcher where
  "actionTokenRegex s =
     (case s of
        [] \<Rightarrow> None
      | c # cs \<Rightarrow>
          (if is_digit c then
             (let ip = takeWhile is_digit s; r = dropWhile is_digit s in
              (case r of
                 d # e # r' \<Rightarrow>
                   (if d = CHR ''.'' \<and> is_digit e
                    then Some (ip @ [d] @ takeWhile is_digit (e # r'), dropWhile is_digit (e # r'))
                    else Some (ip, r))
               | _ \<Rightarrow> Some (ip, r)))
           else if is_alpha c \<or> c = CHR ''_'' then
             Some (c # takeWhile (\<lambda>d. is_word d \<or> d = CHR '':'') cs,
                   dropWhile (\<lambda>d. is_word d \<or> d = CHR '':'') cs)
           else if c \<in> set ''+-*/%()'' then Some ([c], cs)
           else None))"

text \<open>The keys of the \<open>operators\<close> table of \<open>Action.createEvaluator\<close>, and its functions.\<close>

definition is_operator :: "string \<Rightarrow> bool" where
  "is_operator t = (t \<in> set [''+'', ''-'', ''*'', ''/'', ''%''])"

definition apply_operator :: "string \<Rightarrow> jsval \<Rightarrow> jsval \<Rightarrow> jsval" where
  "apply_operator t a b =
     (if t = ''+'' then Number (num_add (toNumber a) (toNumber b))
      else if t = ''-'' then Number (num_sub (toNumber a) (toNumber b))
      else if t = ''*'' then Number (num_mul (toNumber a) (toNumber b))
      else if t = ''/'' then Number (num_div (toNumber a) (toNumber b))
      else Number (num_rem (toNumber a) (toNumber b)))"

text \<open>
  The output queue holds numbers and strings: a variable is the string \<open>'v' + identifier\<close>,
  an operator or a parenthesis is its own text. A JavaScript array used as a stack is a
  list whose head is the top; the output queue is a list in index order.
\<close>

datatype qtoken = QNum rat | QStr string

text \<open>The loop \<open>while (... operators[top] && /^[+-]$/.test(token))\<close>: it pops the stacked
  operators to the output queue, and only for an incoming \<open>+\<close> or \<open>-\<close>.\<close>

fun action_pop_operators :: "string \<Rightarrow> qtoken list \<Rightarrow> string list \<Rightarrow> qtoken list \<times> string list" where
  "action_pop_operators token out [] = (out, [])"
| "action_pop_operators token out (opr # stack) =
     (if is_operator opr \<and> (token = ''+'' \<or> token = ''-'')
      then action_pop_operators token (out @ [QStr opr]) stack
      else (out, opr # stack))"

text \<open>The loop of the closing parenthesis: pop to the output queue down to the last \<open>(\<close>.\<close>

fun pop_to_open :: "qtoken list \<Rightarrow> string list \<Rightarrow> qtoken list \<times> string list" where
  "pop_to_open out [] = (out, [])"
| "pop_to_open out (opr # stack) =
     (if opr \<noteq> ''('' then pop_to_open (out @ [QStr opr]) stack else (out, opr # stack))"

text \<open>The shunting-yard loop \<open>for (const token of tokens)\<close> of \<open>Action.createEvaluator\<close>.
  \<open>Identifier.parse\<close> is called without a context.\<close>

fun action_shunting_yard ::
  "string \<Rightarrow> string \<Rightarrow> string list \<Rightarrow> qtoken list \<Rightarrow> string list \<Rightarrow> error + (qtoken list \<times> string list)"
where
  "action_shunting_yard expression ns [] out stack = Inr (out, stack)"
| "action_shunting_yard expression ns (token # tokens) out stack =
     (if numberRegex token then
        action_shunting_yard expression ns tokens (out @ [QNum (decimal token)]) stack
      else if variableRegex token then
        (case parseIdentifier token ns False of
           Inl e \<Rightarrow> Inl e
         | Inr ident \<Rightarrow>
             action_shunting_yard expression ns tokens (out @ [QStr (CHR ''v'' # ident)]) stack)
      else if is_operator token then
        (case action_pop_operators token out stack of
           (out', stack') \<Rightarrow> action_shunting_yard expression ns tokens out' (token # stack'))
      else if token = ''('' then
        action_shunting_yard expression ns tokens out (token # stack)
      else if token = '')'' then
        (case pop_to_open out stack of
           (out', []) \<Rightarrow> Inl (ParserError ''adventure'' (''Mismatched parentheses: '' @ expression))
         | (out', opr # stack') \<Rightarrow> action_shunting_yard expression ns tokens out' stack')
      else action_shunting_yard expression ns tokens out stack)"

text \<open>
  \<open>Action.createEvaluator\<close> up to the closure it returns: the compiled output queue.
  \<open>expression.match\<close> is \<open>null\<close> when there is no token.
\<close>

definition Action_createEvaluator :: "string \<Rightarrow> string \<Rightarrow> error + qtoken list" where
  "Action_createEvaluator expression ns =
     (let tokens = match_all actionTokenRegex expression in
      if tokens = [] then Inl (ParserError ''adventure'' (''Invalid expression: '' @ expression))
      else (case action_shunting_yard expression ns tokens [] [] of
              Inl e \<Rightarrow> Inl e
            | Inr (out, stack) \<Rightarrow> Inr (out @ map QStr stack)))"

text \<open>
  The closure: the walk over the output queue with an operand stack. \<open>stack.pop()\<close> on an
  empty array is \<open>undefined\<close>; the result is \<open>stack[0]\<close>, the bottom of the stack.
\<close>

definition pop :: "jsval list \<Rightarrow> jsval \<times> jsval list" where
  "pop stack = (case stack of [] \<Rightarrow> (Undefined, []) | x # xs \<Rightarrow> (x, xs))"

definition bottom :: "jsval list \<Rightarrow> jsval" where
  "bottom stack = (if stack = [] then Undefined else last stack)"

fun action_walk :: "variables \<Rightarrow> qtoken list \<Rightarrow> jsval list \<Rightarrow> error + jsval list" where
  "action_walk vars [] stack = Inr stack"
| "action_walk vars (QNum n # queue) stack = action_walk vars queue (Number (Fin n) # stack)"
| "action_walk vars (QStr token # queue) stack =
     (if starts_with token ''v'' then
        (let name = drop 1 token; v = lookup vars name in
         if v = Undefined then Inl (UndefinedVariable name)
         else action_walk vars queue (v # stack))
      else if is_operator token then
        (case pop stack of (b, stack1) \<Rightarrow>
           (case pop stack1 of (a, stack2) \<Rightarrow>
              action_walk vars queue (apply_operator token a b # stack2)))
      else action_walk vars queue stack)"

definition action_evaluator :: "qtoken list \<Rightarrow> variables \<Rightarrow> error + jsval" where
  "action_evaluator queue vars =
     (case action_walk vars queue [] of Inl e \<Rightarrow> Inl e | Inr stack \<Rightarrow> Inr (bottom stack))"

text \<open>
  \<open>actionRegex = /(.*?)([+\-*/]?=)(.*)/\<close>, not anchored: the shortest left side before
  the first assignment operator; \<open>.\<close> does not match a line terminator.
\<close>

fun actionRegex_from :: "string \<Rightarrow> string \<Rightarrow> (string \<times> string \<times> string) option" where
  "actionRegex_from left [] = None"
| "actionRegex_from left (c # cs) =
     (if c \<in> set ''+-*/'' \<and> starts_with cs ''=''
      then Some (left, [c, CHR ''=''], takeWhile (\<lambda>d. \<not> is_line_terminator d) (drop 1 cs))
      else if c = CHR ''=''
      then Some (left, ''='', takeWhile (\<lambda>d. \<not> is_line_terminator d) cs)
      else if is_line_terminator c then None
      else actionRegex_from (left @ [c]) cs)"

fun actionRegex :: "string \<Rightarrow> (string \<times> string \<times> string) option" where
  "actionRegex [] = actionRegex_from [] []"
| "actionRegex (c # cs) =
     (case actionRegex_from [] (c # cs) of
        Some m \<Rightarrow> Some m
      | None \<Rightarrow> actionRegex cs)"

record action =
  variableName :: string
  operator :: string
  evaluator :: "qtoken list"

text \<open>The constructor \<open>new Action(action, variables, defaultNamespace, context)\<close>.\<close>

definition Action_new :: "string \<Rightarrow> string \<Rightarrow> error + action" where
  "Action_new act ns =
     (case actionRegex act of
        None \<Rightarrow> Inl (ParserError ''adventure'' (''Malformed action: '' @ act))
      | Some (m1, m2, m3) \<Rightarrow>
          (case parseIdentifier (trim m1) ns False of
             Inl e \<Rightarrow> Inl e
           | Inr name \<Rightarrow>
               (case Action_createEvaluator (trim m3) ns of
                  Inl e \<Rightarrow> Inl e
                | Inr queue \<Rightarrow>
                    Inr \<lparr>variableName = name, operator = trim m2, evaluator = queue\<rparr>)))"

text \<open>
  \<open>Action.evaluate\<close>: the evaluator runs first; a compound operator then reads
  \<open>variables[variableName]\<close>, which is \<open>undefined\<close> for an absent key, and writes the
  combination back.
\<close>

definition Action_evaluate :: "action \<Rightarrow> variables \<Rightarrow> error + variables" where
  "Action_evaluate a vars =
     (case action_evaluator (evaluator a) vars of
        Inl e \<Rightarrow> Inl e
      | Inr v \<Rightarrow>
          (let name = variableName a; cur = lookup vars name in
           Inr (if operator a = ''='' then vars(name \<mapsto> v)
                else if operator a = ''+='' then vars(name \<mapsto> apply_operator ''+'' cur v)
                else if operator a = ''-='' then vars(name \<mapsto> apply_operator ''-'' cur v)
                else if operator a = ''*='' then vars(name \<mapsto> apply_operator ''*'' cur v)
                else if operator a = ''/='' then vars(name \<mapsto> apply_operator ''/'' cur v)
                else vars)))"

text \<open>\<open>Array.prototype.forEach\<close> over a list of actions, stopping at the first exception.\<close>

fun evaluate_actions :: "action list \<Rightarrow> variables \<Rightarrow> error + variables" where
  "evaluate_actions [] vars = Inr vars"
| "evaluate_actions (a # as) vars =
     (case Action_evaluate a vars of
        Inl e \<Rightarrow> Inl e
      | Inr vars' \<Rightarrow> evaluate_actions as vars')"

text \<open>\<open>String.prototype.split\<close> with the regular expression \<open>separatorRegex = /[,;]/\<close>.\<close>

fun split_where :: "(char \<Rightarrow> bool) \<Rightarrow> string \<Rightarrow> string list" where
  "split_where P [] = [[]]"
| "split_where P (x # xs) =
     (if P x then [] # split_where P xs
      else (case split_where P xs of
              [] \<Rightarrow> [[x]]
            | p # ps \<Rightarrow> (x # p) # ps))"

fun sequence :: "(error + 'a) list \<Rightarrow> error + 'a list" where
  "sequence [] = Inr []"
| "sequence (x # xs) =
     (case x of
        Inl e \<Rightarrow> Inl e
      | Inr v \<Rightarrow> (case sequence xs of Inl e \<Rightarrow> Inl e | Inr vs \<Rightarrow> Inr (v # vs)))"

text \<open>\<open>Action.parseActions\<close>; the argument is \<open>None\<close> for a field that is not given.\<close>

definition parseActions :: "string option \<Rightarrow> string \<Rightarrow> error + action list" where
  "parseActions actions ns =
     (case actions of
        None \<Rightarrow> Inr []
      | Some s \<Rightarrow>
          (if s = [] then Inr []
           else sequence
                  (map (\<lambda>a. Action_new (trim (filter (\<lambda>c. c \<noteq> CHR '' '') a)) ns)
                       (split_where (\<lambda>c. c = CHR '','' \<or> c = CHR '';'') s))))"

text \<open>Compiling an action string and evaluating it once, as the tests of the source do.\<close>

definition run_action :: "string \<Rightarrow> string \<Rightarrow> variables \<Rightarrow> error + variables" where
  "run_action act ns vars =
     (case Action_new act ns of Inl e \<Rightarrow> Inl e | Inr a \<Rightarrow> Action_evaluate a vars)"

section \<open>Conditions, postfix evaluator (class Conditional with createEvaluator)\<close>

text \<open>
  \<open>numberRangeRegex = /(\w+)=(\d+)\.\.(\d+)/g\<close> with its replacement
  \<open>(var>=start&&var<=end)\<close>. Each of \<open>\w+\<close> and \<open>\d+\<close> can only stop at the end of
  its run, because the character required next is outside the class.
\<close>

definition numberRangeRegex :: matcher where
  "numberRangeRegex s =
     (let varName = takeWhile is_word s; r1 = dropWhile is_word s in
      if varName = [] \<or> \<not> starts_with r1 ''='' then None
      else
        (let r2 = drop 1 r1; start = takeWhile is_digit r2; r3 = dropWhile is_digit r2 in
         if start = [] \<or> \<not> starts_with r3 ''..'' then None
         else
           (let r4 = drop 2 r3; end = takeWhile is_digit r4 in
            if end = [] then None
            else Some (''('' @ varName @ ''>='' @ start @ ''&&'' @ varName @ ''<='' @ end @ '')'',
                       dropWhile is_digit r4))))"

text \<open>\<open>conditionalTokenRegex = /\w+|>=|<=|==|=|&&|\|\||[()]|[-\d]+/g\<close>.\<close>

definition conditionalTokenRegex :: matcher where
  "conditionalTokenRegex s =
     (case s of
        [] \<Rightarrow> None
      | c # cs \<Rightarrow>
          (if is_word c then Some (takeWhile is_word s, dropWhile is_word s)
           else if starts_with s ''>='' then Some (''>='', drop 2 s)
           else if starts_with s ''<='' then Some (''<='', drop 2 s)
           else if starts_with s ''=='' then Some (''=='', drop 2 s)
           else if c = CHR ''='' then Some (''='', cs)
           else if starts_with s ''&&'' then Some (''&&'', drop 2 s)
           else if starts_with s ''||'' then Some (''||'', drop 2 s)
           else if c = CHR ''('' \<or> c = CHR '')'' then Some ([c], cs)
           else if c = CHR ''-'' \<or> is_digit c then
             Some (takeWhile (\<lambda>d. d = CHR ''-'' \<or> is_digit d) s,
                   dropWhile (\<lambda>d. d = CHR ''-'' \<or> is_digit d) s)
           else None))"

text \<open>The \<open>operators\<close> table of \<open>Conditional.createEvaluator\<close>: every entry is
  left-associative.\<close>

definition is_cond_operator :: "string \<Rightarrow> bool" where
  "is_cond_operator t = (t \<in> set [''&&'', ''||'', ''>='', ''<='', ''=='', ''=''])"

definition precedence :: "string \<Rightarrow> nat" where
  "precedence t = (if t = ''&&'' then 2 else if t = ''||'' then 1 else 3)"

definition cond_apply :: "string \<Rightarrow> jsval \<Rightarrow> jsval \<Rightarrow> jsval" where
  "cond_apply t a b =
     (if t = ''&&'' then (if toBoolean a then b else a)
      else if t = ''||'' then (if toBoolean a then a else b)
      else if t = ''>='' then Boolean (num_le (toNumber b) (toNumber a))
      else if t = ''<='' then Boolean (num_le (toNumber a) (toNumber b))
      else Boolean (strict_eq a b))"

fun cond_pop_operators :: "string \<Rightarrow> qtoken list \<Rightarrow> string list \<Rightarrow> qtoken list \<times> string list" where
  "cond_pop_operators token out [] = (out, [])"
| "cond_pop_operators token out (opr # stack) =
     (if is_cond_operator opr \<and> precedence token \<le> precedence opr
      then cond_pop_operators token (out @ [QStr opr]) stack
      else (out, opr # stack))"

text \<open>The shunting-yard loop. After a closing parenthesis \<open>operatorStack.pop()\<close> removes the
  \<open>(\<close>, or nothing when the stack is empty: there is no check.\<close>

fun cond_shunting_yard ::
  "string \<Rightarrow> string list \<Rightarrow> qtoken list \<Rightarrow> string list \<Rightarrow> error + (qtoken list \<times> string list)"
where
  "cond_shunting_yard ns [] out stack = Inr (out, stack)"
| "cond_shunting_yard ns (token # tokens) out stack =
     (if numberRegex token then
        cond_shunting_yard ns tokens (out @ [QNum (decimal token)]) stack
      else if variableRegex token then
        (case parseIdentifier token ns False of
           Inl e \<Rightarrow> Inl e
         | Inr ident \<Rightarrow> cond_shunting_yard ns tokens (out @ [QStr (CHR ''v'' # ident)]) stack)
      else if is_cond_operator token then
        (case cond_pop_operators token out stack of
           (out', stack') \<Rightarrow> cond_shunting_yard ns tokens out' (token # stack'))
      else if token = ''('' then
        cond_shunting_yard ns tokens out (token # stack)
      else if token = '')'' then
        (case pop_to_open out stack of
           (out', stack') \<Rightarrow> cond_shunting_yard ns tokens out' (drop 1 stack'))
      else cond_shunting_yard ns tokens out stack)"

definition Conditional_createEvaluator :: "string \<Rightarrow> string \<Rightarrow> error + qtoken list" where
  "Conditional_createEvaluator conditional ns =
     (let tokens = match_all conditionalTokenRegex
                     (replace_all numberRangeRegex (filter (\<lambda>c. \<not> is_space c) conditional)) in
      if tokens = [] then Inl (ParserError ''adventure'' (''Malformed conditional: '' @ conditional))
      else (case cond_shunting_yard ns tokens [] [] of
              Inl e \<Rightarrow> Inl e
            | Inr (out, stack) \<Rightarrow> Inr (out @ map QStr stack)))"

text \<open>The closure: the walk over the postfix queue; the result is \<open>Boolean(stack[0])\<close>.\<close>

fun cond_walk :: "variables \<Rightarrow> qtoken list \<Rightarrow> jsval list \<Rightarrow> error + jsval list" where
  "cond_walk vars [] stack = Inr stack"
| "cond_walk vars (QNum n # queue) stack = cond_walk vars queue (Number (Fin n) # stack)"
| "cond_walk vars (QStr token # queue) stack =
     (if starts_with token ''v'' then
        (let variableIdentifier = drop 1 token in
         if lookup vars variableIdentifier = Undefined
         then Inl (UndefinedVariable variableIdentifier)
         else cond_walk vars queue (lookup vars variableIdentifier # stack))
      else if is_cond_operator token then
        (case pop stack of (b, stack1) \<Rightarrow>
           (case pop stack1 of (a, stack2) \<Rightarrow>
              cond_walk vars queue (cond_apply token a b # stack2)))
      else cond_walk vars queue stack)"

definition cond_evaluator :: "qtoken list \<Rightarrow> variables \<Rightarrow> error + bool" where
  "cond_evaluator queue vars =
     (case cond_walk vars queue [] of Inl e \<Rightarrow> Inl e | Inr stack \<Rightarrow> Inr (toBoolean (bottom stack)))"

text \<open>Compiling a condition with the postfix evaluator and evaluating it once.\<close>

definition run_postfix :: "string \<Rightarrow> string \<Rightarrow> variables \<Rightarrow> error + bool" where
  "run_postfix conditional ns vars =
     (case Conditional_createEvaluator conditional ns of
        Inl e \<Rightarrow> Inl e
      | Inr queue \<Rightarrow> cond_evaluator queue vars)"

text \<open>
  \<open>variables.js\<close> holds a second class \<open>Conditional\<close>, whose constructor reorders the
  tokens into prefix form and whose \<open>evaluate\<close> walks them with a short-circuiting loop.
  After storing its arguments, its constructor executes the assignment
  \<open>conditionExpressionSubstring = conditionExpression.replaceAll(" ", "")\<close> to a name
  that is declared nowhere, and \<open>evaluate\<close> reads the names \<open>tokens\<close> and \<open>regexs\<close>,
  which are local to the constructor. A class body is strict mode code, so the
  assignment throws a \<open>ReferenceError\<close> for every argument: no instance of that class
  exists and none of its later statements is ever executed. The conditions of this model
  are those of \<open>Conditional.createEvaluator\<close>.
\<close>

section \<open>Text templates (class Text)\<close>

text \<open>
  The constructor splits on \<open>/(\${[^}]+}|\?\{[^}]+})/g\<close>; the capturing group keeps the
  markers in the result. \<open>marker\<close> is that regular expression at the start of a string,
  \<open>text_split_from\<close> carries the literal text read since the last marker.
\<close>

definition marker :: matcher where
  "marker s =
     (if starts_with s ''${'' \<or> starts_with s ''?{'' then
        (let body = takeWhile (\<lambda>c. c \<noteq> CHR ''}'') (drop 2 s);
             rest = dropWhile (\<lambda>c. c \<noteq> CHR ''}'') (drop 2 s) in
         if body \<noteq> [] \<and> rest \<noteq> [] then Some (take 2 s @ body @ ''}'', drop 1 rest) else None)
      else None)"

function text_split_from :: "string \<Rightarrow> string \<Rightarrow> string list" where
  "text_split_from literal [] = [literal]"
| "text_split_from literal (c # cs) =
     (case marker (c # cs) of
        None \<Rightarrow> text_split_from (literal @ [c]) cs
      | Some (m, rest) \<Rightarrow>
          (if length rest < length (c # cs) then literal # m # text_split_from [] rest
           else text_split_from (literal @ [c]) cs))"
  by pat_completeness auto
termination
  by (relation "measure (\<lambda>(literal, s). length s)") auto

text \<open>\<open>RegExp.prototype.exec\<close> with a regular expression that is not anchored: the first
  position where it matches.\<close>

fun exec :: "(string \<Rightarrow> 'a option) \<Rightarrow> string \<Rightarrow> 'a option" where
  "exec m [] = m []"
| "exec m (c # cs) = (case m (c # cs) of Some r \<Rightarrow> Some r | None \<Rightarrow> exec m cs)"

text \<open>\<open>/\${(.*?)}/\<close>: the group is the text up to the first \<open>}\<close>, on one line.\<close>

definition variableMatch_at :: "string \<Rightarrow> string option" where
  "variableMatch_at s =
     (if starts_with s ''${'' then
        (let body = takeWhile (\<lambda>c. c \<noteq> CHR ''}'' \<and> \<not> is_line_terminator c) (drop 2 s);
             rest = dropWhile (\<lambda>c. c \<noteq> CHR ''}'' \<and> \<not> is_line_terminator c) (drop 2 s) in
         if starts_with rest ''}'' then Some body else None)
      else None)"

text \<open>
  \<open>/\?\{([^?]+)\?([^:]+)(?::([^}]+))?}/\<close>: the condition up to the first \<open>?\<close>, then the
  longest text without a colon. Either a colon, a third group and \<open>}\<close> follow it, or the
  second group backs up to its last \<open>}\<close> and there is no third group.
\<close>

definition conditionalMatch_at :: "string \<Rightarrow> (string \<times> string \<times> string option) option" where
  "conditionalMatch_at s =
     (if starts_with s ''?{'' then
        (let g1 = takeWhile (\<lambda>c. c \<noteq> CHR ''?'') (drop 2 s);
             r1 = dropWhile (\<lambda>c. c \<noteq> CHR ''?'') (drop 2 s) in
         if g1 = [] \<or> r1 = [] then None
         else
           (let g2 = takeWhile (\<lambda>c. c \<noteq> CHR '':'') (drop 1 r1);
                r2 = dropWhile (\<lambda>c. c \<noteq> CHR '':'') (drop 1 r1);
                g3 = takeWhile (\<lambda>c. c \<noteq> CHR ''}'') (drop 1 r2);
                r3 = dropWhile (\<lambda>c. c \<noteq> CHR ''}'') (drop 1 r2);
                k = lastIndexOf g2 CHR ''}'' in
            if g2 \<noteq> [] \<and> r2 \<noteq> [] \<and> g3 \<noteq> [] \<and> r3 \<noteq> [] then Some (g1, g2, Some g3)
            else if 1 \<le> k then Some (g1, take (nat k) g2, None)
            else None))
      else None)"

text \<open>
  A compiled fragment: a literal, a variable reference, or a condition with one or two
  nested texts. Text reaches the class Conditional through its constructor and
  \<open>evaluate()\<close> only, so the compiled condition is a type parameter and the two methods
  are arguments.
\<close>

datatype 'c fragment =
    Literal string
  | Interpolation string
  | Conditional_text 'c "'c fragment list" "'c fragment list option"

function Text_new :: "(string \<Rightarrow> string \<Rightarrow> error + 'c) \<Rightarrow> string \<Rightarrow> string \<Rightarrow> error + 'c fragment list" where
  "Text_new new_conditional str ns =
     sequence
       (map (\<lambda>token.
               (case exec variableMatch_at token of
                  Some varName \<Rightarrow>
                    (case parseIdentifier varName ns False of
                       Inl e \<Rightarrow> Inl e
                     | Inr identifier \<Rightarrow> Inr (Interpolation identifier))
                | None \<Rightarrow>
                    (case exec conditionalMatch_at token of
                       None \<Rightarrow> Inr (Literal token)
                     | Some (m1, m2, m3) \<Rightarrow>
                         (case new_conditional m1 ns of
                            Inl e \<Rightarrow> Inl e
                          | Inr conditional \<Rightarrow>
                              (case Text_new new_conditional m2 ns of
                                 Inl e \<Rightarrow> Inl e
                               | Inr text1 \<Rightarrow>
                                   (case m3 of
                                      None \<Rightarrow> Inr (Conditional_text conditional text1 None)
                                    | Some m3' \<Rightarrow>
                                        (case Text_new new_conditional m3' ns of
                                           Inl e \<Rightarrow> Inl e
                                         | Inr text2 \<Rightarrow>
                                             Inr (Conditional_text conditional text1 (Some text2)))))))))
            (filter (\<lambda>token. token \<noteq> []) (text_split_from [] str)))"
  by pat_completeness auto

text \<open>
  \<open>Text.evaluate\<close>: \<open>tokens.map((token) => token.evaluate()).join('')\<close>. \<open>join\<close> writes
  \<open>undefined\<close> as the empty string and any other value through \<open>String\<close>, which is
  the argument \<open>to_string\<close> here; \<open>evaluate_conditional\<close> is \<open>conditional.evaluate()\<close>.
\<close>

fun Text_evaluate ::
  "('c \<Rightarrow> variables \<Rightarrow> error + jsval) \<Rightarrow> (jsval \<Rightarrow> string) \<Rightarrow> variables \<Rightarrow> 'c fragment list
     \<Rightarrow> error + string"
and fragment_evaluate ::
  "('c \<Rightarrow> variables \<Rightarrow> error + jsval) \<Rightarrow> (jsval \<Rightarrow> string) \<Rightarrow> variables \<Rightarrow> 'c fragment
     \<Rightarrow> error + string"
where
  "Text_evaluate evaluate_conditional to_string vars [] = Inr []"
| "Text_evaluate evaluate_conditional to_string vars (f # fs) =
     (case fragment_evaluate evaluate_conditional to_string vars f of
        Inl e \<Rightarrow> Inl e
      | Inr s \<Rightarrow>
          (case Text_evaluate evaluate_conditional to_string vars fs of
             Inl e \<Rightarrow> Inl e
           | Inr r \<Rightarrow> Inr (s @ r)))"
| "fragment_evaluate evaluate_conditional to_string vars (Literal token) = Inr token"
| "fragment_evaluate evaluate_conditional to_string vars (Interpolation identifier) =
     Inr (if lookup vars identifier = Undefined then [] else to_string (lookup vars identifier))"
| "fragment_evaluate evaluate_conditional to_string vars (Conditional_text conditional text1 None) =
     (case evaluate_conditional conditional vars of
        Inl e \<Rightarrow> Inl e
      | Inr b \<Rightarrow>
          (if toBoolean b then Text_evaluate evaluate_conditional to_string vars text1 else Inr []))"
| "fragment_evaluate evaluate_conditional to_string vars (Conditional_text conditional text1 (Some text2)) =
     (case evaluate_conditional conditional vars of
        Inl e \<Rightarrow> Inl e
      | Inr b \<Rightarrow>
          (if toBoolean b then Text_evaluate evaluate_conditional to_string vars text1
           else Text_evaluate evaluate_conditional to_string vars text2))"

text \<open>The postfix evaluator as the class Conditional of a text: its constructor and its
  \<open>evaluate()\<close>, which returns a boolean.\<close>

definition postfix_evaluate :: "qtoken list \<Rightarrow> variables \<Rightarrow> error + jsval" where
  "postfix_evaluate queue vars =
     (case cond_evaluator queue vars of Inl e \<Rightarrow> Inl e | Inr b \<Rightarrow> Inr (Boolean b))"

text \<open>Compiling a text with the postfix evaluator and rendering it once.\<close>

definition render :: "(jsval \<Rightarrow> string) \<Rightarrow> string \<Rightarrow> string \<Rightarrow> variables \<Rightarrow> error + string" where
  "render to_string str ns vars =
     (case Text_new Conditional_createEvaluator str ns of
        Inl e \<Rightarrow> Inl e
      | Inr tokens \<Rightarrow> Text_evaluate postfix_evaluate to_string vars tokens)"

section \<open>The traversal engine (class AdventureEngine)\<close>

text \<open>\<open>getIdentifierNamespace\<close> of identifiers.js.\<close>

definition getIdentifierNamespace :: "string \<Rightarrow> error + string" where
  "getIdentifierNamespace ident =
     (let parts = take 3 (split_on CHR '':'' ident) in
      if length parts \<noteq> 2 then Inl (MalformedIdentifier ident) else Inr (parts ! 0))"

text \<open>
  Modelled from the spec: the class \<open>FixedSizeStack\<close> of \<open>./fixed-size-stack\<close> is not
  among the sources. The specification describes the History as a fixed-capacity stack
  that discards its oldest entry when full; \<open>pop\<close> on the empty stack is taken to return
  \<open>undefined\<close>. The head of \<open>items\<close> is the most recent entry.
\<close>

record 'a FixedSizeStack =
  capacity :: nat
  items :: "'a list"

definition FixedSizeStack_new :: "nat \<Rightarrow> 'a FixedSizeStack" where
  "FixedSizeStack_new n = \<lparr>capacity = n, items = []\<rparr>"

definition FixedSizeStack_push :: "'a \<Rightarrow> 'a FixedSizeStack \<Rightarrow> 'a FixedSizeStack" where
  "FixedSizeStack_push x st = st\<lparr>items := take (capacity st) (x # items st)\<rparr>"

definition FixedSizeStack_pop :: "'a FixedSizeStack \<Rightarrow> 'a option \<times> 'a FixedSizeStack" where
  "FixedSizeStack_pop st =
     (case items st of
        [] \<Rightarrow> (None, st)
      | x # xs \<Rightarrow> (Some x, st\<lparr>items := xs\<rparr>))"

definition MAX_RETURN_HISTORY :: nat where
  "MAX_RETURN_HISTORY = 16"

definition INKSPIRE_NAMESPACE :: string where
  "INKSPIRE_NAMESPACE = ''inkspire''"

text \<open>
  Options and scenes as the linker leaves them. An option's \<open>target\<close> is the scene object
  registered under the target identifier: the model keeps the identifier and reads the
  registry \<open>scenes\<close> when the option is followed. \<open>globalTop\<close> and \<open>globalBottom\<close> are
  those of the scene's adventure.
\<close>

record 'c adventure_option =
  label :: "'c fragment list"
  target :: string
  condition :: "'c option"
  alwaysVisible :: bool
  option_actions :: "action list"

record 'c scene =
  title :: "'c fragment list"
  name :: string
  scene_identifier :: string
  content :: "'c fragment list list"
  scene_actions :: "action list"
  options :: "'c adventure_option list"
  globalTop :: "'c fragment list option"
  globalBottom :: "'c fragment list option"

text \<open>How a run of \<open>runAdventure\<close> ends: it returns, the process exits, an exception
  propagates, or it waits for a line of input that never comes. The lines written are
  kept for the first, second and last.\<close>

datatype outcome =
    Returned "string list"
  | Exited "string list"
  | Raised error
  | Awaiting "string list"

definition to_lower :: "char \<Rightarrow> char" where
  "to_lower c =
     (case map_of (zip ''ABCDEFGHIJKLMNOPQRSTUVWXYZ'' ''abcdefghijklmnopqrstuvwxyz'') c of
        None \<Rightarrow> c
      | Some l \<Rightarrow> l)"

fun string_of_nat :: "nat \<Rightarrow> string" where
  "string_of_nat n =
     (if n < 10 then [''0123456789'' ! n]
      else string_of_nat (n div 10) @ [''0123456789'' ! (n mod 10)])"

text \<open>
  \<open>getChoice(numOptions)\<close>. \<open>Number(response)\<close> is the argument \<open>to_number\<close>. The
  result is the accepted choice, or \<open>None\<close> when the input runs out, with the input left
  and the lines written.
\<close>

fun getChoice ::
  "(string \<Rightarrow> number) \<Rightarrow> nat \<Rightarrow> string list \<Rightarrow> string list \<Rightarrow> number option \<times> string list \<times> string list"
where
  "getChoice to_number numOptions [] out = (None, [], out @ [''What do you do?''])"
| "getChoice to_number numOptions (line # inputs) out =
     (let choice = to_number (trim line) in
      if choice = NaN \<or> num_less choice (Fin 1) \<or> num_less (Fin (of_nat numOptions)) choice
      then getChoice to_number numOptions inputs
             (out @ [''What do you do?'',
                     ''Select one of the options by entering a number from 1 to ''
                       @ string_of_nat numOptions @ ''.''])
      else (Some choice, inputs, out @ [''What do you do?'']))"

text \<open>\<open>availableOptions[response - 1]\<close>: \<open>undefined\<close> unless the index is a natural number
  below the length.\<close>

definition chosen :: "'a list \<Rightarrow> number \<Rightarrow> 'a option" where
  "chosen availableOptions response =
     (case response of
        Fin q \<Rightarrow>
          (if of_int \<lfloor>q\<rfloor> = q \<and> 1 \<le> q \<and> nat \<lfloor>q\<rfloor> - 1 < length availableOptions
           then Some (availableOptions ! (nat \<lfloor>q\<rfloor> - 1)) else None)
      | _ \<Rightarrow> None)"

text \<open>The partition of the options: \<open>!option.condition || option.condition.evaluate()\<close>, in
  list order.\<close>

fun partition_options ::
  "('c \<Rightarrow> variables \<Rightarrow> error + jsval) \<Rightarrow> variables \<Rightarrow> 'c adventure_option list
     \<Rightarrow> error + ('c adventure_option list \<times> 'c adventure_option list)"
where
  "partition_options evaluate_conditional vars [] = Inr ([], [])"
| "partition_options evaluate_conditional vars (opt # opts) =
     (case (case condition opt of
              None \<Rightarrow> Inr True
            | Some c \<Rightarrow> (case evaluate_conditional c vars of Inl e \<Rightarrow> Inl e | Inr b \<Rightarrow> Inr (toBoolean b))) of
        Inl e \<Rightarrow> Inl e
      | Inr available \<Rightarrow>
          (case partition_options evaluate_conditional vars opts of
             Inl e \<Rightarrow> Inl e
           | Inr (availableOptions, unavailableOptions) \<Rightarrow>
               Inr (if available then (opt # availableOptions, unavailableOptions)
                    else (availableOptions, opt # unavailableOptions))))"

text \<open>The head of a turn: the entry actions, eleven empty lines, the title, the header of
  the adventure, the paragraphs that are not empty, and the footer.\<close>

definition optional_text ::
  "('c \<Rightarrow> variables \<Rightarrow> error + jsval) \<Rightarrow> (jsval \<Rightarrow> string) \<Rightarrow> variables
     \<Rightarrow> 'c fragment list option \<Rightarrow> error + string list"
where
  "optional_text evaluate_conditional to_string vars t =
     (case t of
        None \<Rightarrow> Inr []
      | Some g \<Rightarrow>
          (case Text_evaluate evaluate_conditional to_string vars g of
             Inl e \<Rightarrow> Inl e
           | Inr s \<Rightarrow> Inr [s]))"

definition render_scene ::
  "('c \<Rightarrow> variables \<Rightarrow> error + jsval) \<Rightarrow> (jsval \<Rightarrow> string) \<Rightarrow> 'c scene \<Rightarrow> variables
     \<Rightarrow> string list \<Rightarrow> error + (variables \<times> string list)"
where
  "render_scene evaluate_conditional to_string sc vars out =
     (case evaluate_actions (scene_actions sc) vars of
        Inl e \<Rightarrow> Inl e
      | Inr vars1 \<Rightarrow>
          (case Text_evaluate evaluate_conditional to_string vars1 (title sc) of
             Inl e \<Rightarrow> Inl e
           | Inr t \<Rightarrow>
               (case optional_text evaluate_conditional to_string vars1 (globalTop sc) of
                  Inl e \<Rightarrow> Inl e
                | Inr top_lines \<Rightarrow>
                    (case sequence (map (Text_evaluate evaluate_conditional to_string vars1) (content sc)) of
                       Inl e \<Rightarrow> Inl e
                     | Inr paragraphs \<Rightarrow>
                         (case optional_text evaluate_conditional to_string vars1 (globalBottom sc) of
                            Inl e \<Rightarrow> Inl e
                          | Inr bottom_lines \<Rightarrow>
                              Inr (vars1,
                                   out @ replicate 11 [] @ [t] @ top_lines
                                     @ filter (\<lambda>line. line \<noteq> []) paragraphs @ bottom_lines))))))"

text \<open>The menu: the available options numbered from 1 in list order, then the unavailable
  options that are always visible, marked \<open>X\<close>.\<close>

fun numbered ::
  "('c \<Rightarrow> variables \<Rightarrow> error + jsval) \<Rightarrow> (jsval \<Rightarrow> string) \<Rightarrow> variables \<Rightarrow> nat
     \<Rightarrow> 'c adventure_option list \<Rightarrow> error + string list"
where
  "numbered evaluate_conditional to_string vars i [] = Inr []"
| "numbered evaluate_conditional to_string vars i (opt # opts) =
     (case Text_evaluate evaluate_conditional to_string vars (label opt) of
        Inl e \<Rightarrow> Inl e
      | Inr l \<Rightarrow>
          (case numbered evaluate_conditional to_string vars (i + 1) opts of
             Inl e \<Rightarrow> Inl e
           | Inr lines \<Rightarrow> Inr ((string_of_nat (i + 1) @ '': '' @ l) # lines)))"

definition show_options ::
  "('c \<Rightarrow> variables \<Rightarrow> error + jsval) \<Rightarrow> (jsval \<Rightarrow> string) \<Rightarrow> variables
     \<Rightarrow> 'c adventure_option list \<Rightarrow> 'c adventure_option list \<Rightarrow> error + string list"
where
  "show_options evaluate_conditional to_string vars availableOptions unavailableOptions =
     (case numbered evaluate_conditional to_string vars 0 availableOptions of
        Inl e \<Rightarrow> Inl e
      | Inr available_lines \<Rightarrow>
          (case sequence (map (\<lambda>opt. Text_evaluate evaluate_conditional to_string vars (label opt))
                            (filter alwaysVisible unavailableOptions)) of
             Inl e \<Rightarrow> Inl e
           | Inr labels \<Rightarrow>
               Inr ([[], ''You could...''] @ available_lines @ map (\<lambda>l. ''X: '' @ l) labels @ [[]])))"

definition follow :: "(string \<rightharpoonup> 'c scene) \<Rightarrow> string \<Rightarrow> 'c scene option" where
  "follow scenes tgt = map_option (\<lambda>sc. sc\<lparr>scene_identifier := tgt\<rparr>) (scenes tgt)"

text \<open>
  The loop \<open>while (true)\<close> of \<open>runAdventure\<close>. \<open>currentScene\<close> is \<open>None\<close> when it is
  \<open>undefined\<close>; \<open>inputs\<close> are the lines that \<open>read()\<close> will deliver. The history is an
  argument of the loop because \<open>back\<close> pops it; no branch pushes.
\<close>

function runAdventure_loop ::
  "('c \<Rightarrow> variables \<Rightarrow> error + jsval) \<Rightarrow> (jsval \<Rightarrow> string) \<Rightarrow> (string \<Rightarrow> number)
     \<Rightarrow> (string \<rightharpoonup> 'c scene) \<Rightarrow> 'c scene option \<Rightarrow> 'c scene FixedSizeStack \<Rightarrow> variables
     \<Rightarrow> string list \<Rightarrow> string list \<Rightarrow> outcome"
where
  "runAdventure_loop evaluate_conditional to_string to_number scenes currentScene history vars inputs out =
     (case currentScene of
        None \<Rightarrow> Raised TypeError
      | Some sc \<Rightarrow>
          (case getIdentifierNamespace (scene_identifier sc) of
             Inl e \<Rightarrow> Raised e
           | Inr nsp \<Rightarrow>
               (if nsp = INKSPIRE_NAMESPACE \<and> name sc = ''switch'' then Raised NotImplemented
                else if nsp = INKSPIRE_NAMESPACE \<and> name sc = ''fail'' then Returned (out @ [''You failed''])
                else if nsp = INKSPIRE_NAMESPACE \<and> name sc = ''pass'' then Returned (out @ [''You win''])
                else if nsp = INKSPIRE_NAMESPACE \<and> name sc = ''exit''
                then Exited (out @ [''Program terminated''])
                else if nsp = INKSPIRE_NAMESPACE \<and> name sc = ''back'' then
                  (case FixedSizeStack_pop history of
                     (popped, history') \<Rightarrow>
                       runAdventure_loop evaluate_conditional to_string to_number scenes popped
                         history' vars inputs out)
                else
                  (case render_scene evaluate_conditional to_string sc vars out of
                     Inl e \<Rightarrow> Raised e
                   | Inr (vars1, out1) \<Rightarrow>
                       (if length (options sc) = 1 then
                          (case Text_evaluate evaluate_conditional to_string vars1 (label (hd (options sc))) of
                             Inl e \<Rightarrow> Raised e
                           | Inr l \<Rightarrow>
                               (case inputs of
                                  [] \<Rightarrow>
                                    Awaiting
                                      ((if l \<noteq> [] then out1 @ [''You '' @ [to_lower (hd l)] @ tl l] else out1)
                                         @ [''Press enter to continue...''])
                                | line # inputs' \<Rightarrow>
                                    (case evaluate_actions (option_actions (hd (options sc))) vars1 of
                                       Inl e \<Rightarrow> Raised e
                                     | Inr vars2 \<Rightarrow>
                                         runAdventure_loop evaluate_conditional to_string to_number scenes
                                           (follow scenes (target (hd (options sc)))) history vars2 inputs'
                                           ((if l \<noteq> [] then out1 @ [''You '' @ [to_lower (hd l)] @ tl l]
                                             else out1)
                                              @ [''Press enter to continue...'']))))
                        else
                          (case partition_options evaluate_conditional vars1 (options sc) of
                             Inl e \<Rightarrow> Raised e
                           | Inr (availableOptions, unavailableOptions) \<Rightarrow>
                               (case show_options evaluate_conditional to_string vars1 availableOptions
                                       unavailableOptions of
                                  Inl e \<Rightarrow> Raised e
                                | Inr lines \<Rightarrow>
                                    (case getChoice to_number (length (options sc)) inputs (out1 @ lines) of
                                       (None, inputs', out2) \<Rightarrow> Awaiting out2
                                     | (Some response, inputs', out2) \<Rightarrow>
                                         (case chosen availableOptions response of
                                            None \<Rightarrow> Raised TypeError
                                          | Some chosenOption \<Rightarrow>
                                              (case evaluate_actions (option_actions chosenOption) vars1 of
                                                 Inl e \<Rightarrow> Raised e
                                               | Inr vars2 \<Rightarrow>
                                                   runAdventure_loop evaluate_conditional to_string
                                                     to_number scenes
                                                     (follow scenes (target chosenOption)) history vars2
                                                     inputs' out2))))))))))"
  by pat_completeness auto

text \<open>\<open>runAdventure(adventureName)\<close>: \<open>adventures\<close> gives the starting scene of each
  loaded adventure; the history starts empty with capacity \<open>MAX_RETURN_HISTORY\<close>.\<close>

definition runAdventure ::
  "('c \<Rightarrow> variables \<Rightarrow> error + jsval) \<Rightarrow> (jsval \<Rightarrow> string) \<Rightarrow> (string \<Rightarrow> number)
     \<Rightarrow> (string \<rightharpoonup> string) \<Rightarrow> (string \<rightharpoonup> 'c scene) \<Rightarrow> string \<Rightarrow> variables \<Rightarrow> string list
     \<Rightarrow> outcome"
where
  "runAdventure evaluate_conditional to_string to_number adventures scenes adventureName vars inputs =
     (case adventures adventureName of
        None \<Rightarrow> Returned [''FAIL: No adventure of named '' @ adventureName @ '' is loaded.'']
      | Some startingScene \<Rightarrow>
          runAdventure_loop evaluate_conditional to_string to_number scenes
            (follow scenes startingScene) (FixedSizeStack_new MAX_RETURN_HISTORY) vars inputs [])"

text \<open>
  \<open>Number\<close> on the lines a player types, for the engine's argument \<open>to_number\<close>: the
  empty string is 0 and a decimal literal is its value. Every other string is \<open>NaN\<close>
  here; JavaScript also reads exponents, other radixes and \<open>Infinity\<close>.
\<close>

definition decimal_Number :: "string \<Rightarrow> number" where
  "decimal_Number s =
     (if s = [] then Fin 0
      else (case lex_number s of
              None \<Rightarrow> NaN
            | Some (t, rest) \<Rightarrow> (if rest = [] then Fin (signed_decimal s) else NaN)))"

text \<open>
  A small linked adventure for the engine: \<open>adventure:start\<close> has the single option
  \<open>Turn around\<close> to \<open>inkspire:back\<close>; \<open>adventure:fork\<close> has the option
  \<open>Open the door\<close> to \<open>inkspire:pass\<close> and the always visible option \<open>Fly\<close> to
  \<open>inkspire:back\<close>, which requires \<open>wings==1\<close>; \<open>adventure:hall\<close> has two
  unconditional options, to \<open>inkspire:back\<close> and to \<open>inkspire:pass\<close>.
\<close>

definition plain_option :: "string \<Rightarrow> string \<Rightarrow> (qtoken list) adventure_option" where
  "plain_option l tgt =
     \<lparr>label = [Literal l], target = tgt, condition = None, alwaysVisible = False, option_actions = []\<rparr>"

definition plain_scene :: "string \<Rightarrow> string \<Rightarrow> (qtoken list) adventure_option list \<Rightarrow> (qtoken list) scene" where
  "plain_scene t n opts =
     \<lparr>title = [Literal t], name = n, scene_identifier = [], content = [[Literal ''...'']],
      scene_actions = [], options = opts, globalTop = None, globalBottom = None\<rparr>"

definition fly_option :: "(qtoken list) adventure_option" where
  "fly_option =
     \<lparr>label = [Literal ''Fly''], target = ''inkspire:back'',
      condition = Some [QStr ''vadventure:wings'', QNum 1, QStr ''==''],
      alwaysVisible = True, option_actions = []\<rparr>"

definition demo_scenes :: "string \<rightharpoonup> (qtoken list) scene" where
  "demo_scenes =
     [''inkspire:back'' \<mapsto> plain_scene ''Unfinished Back Scene'' ''back'' [],
      ''inkspire:pass'' \<mapsto> plain_scene ''Unfinished Completion Scene'' ''pass'' [],
      ''adventure:start'' \<mapsto> plain_scene ''Start'' ''start'' [plain_option ''Turn around'' ''inkspire:back''],
      ''adventure:fork'' \<mapsto>
         plain_scene ''Fork'' ''fork'' [plain_option ''Open the door'' ''inkspire:pass'', fly_option],
      ''adventure:hall'' \<mapsto>
         plain_scene ''Hall'' ''hall''
           [plain_option ''Turn around'' ''inkspire:back'', plain_option ''Go on'' ''inkspire:pass'']]"

definition demo_run :: "string \<Rightarrow> string list \<Rightarrow> outcome" where
  "demo_run startingScene inputs =
     runAdventure postfix_evaluate (\<lambda>v. []) decimal_Number [''adventure'' \<mapsto> startingScene]
       demo_scenes ''adventure'' [''adventure:wings'' \<mapsto> Number (Fin 0)] inputs"

section \<open>Termination of the Text constructor\<close>

lemma starts_with_length: "starts_with s p \<Longrightarrow> length p \<le> length s"
  unfolding starts_with_def by (metis length_take min.cobounded1)

lemma marker_length: "marker s = Some (m, rest) \<Longrightarrow> length m + length rest = length s"
proof -
  assume a: "marker s = Some (m, rest)"
  let ?P = "\<lambda>c. c \<noteq> CHR ''}''"
  let ?b = "takeWhile ?P (drop 2 s)" and ?r = "dropWhile ?P (drop 2 s)"
  from a have "starts_with s ''${'' \<or> starts_with s ''?{''"
    by (auto simp: marker_def split: if_splits)
  then have two: "2 \<le> length s" using starts_with_length by fastforce
  from a have r: "?r \<noteq> []" and m: "m = take 2 s @ ?b @ ''}''" and rest: "rest = drop 1 ?r"
    by (auto simp: marker_def Let_def split: if_splits)
  have "length ?b + length ?r = length (drop 2 s)"
    by (metis length_append takeWhile_dropWhile_id)
  with r two show ?thesis unfolding m rest by (cases ?r) auto
qed

lemma text_split_length:
  "t \<in> set (text_split_from literal s) \<Longrightarrow> length t \<le> length literal + length s"
proof (induction literal s rule: text_split_from.induct)
  case (1 literal)
  then show ?case by simp
next
  case (2 literal c cs)
  show ?case
  proof (cases "marker (c # cs)")
    case None
    with 2 show ?thesis by auto
  next
    case (Some p)
    obtain m rest where p: "p = (m, rest)" by (cases p)
    from Some p have len: "length m + length rest = length (c # cs)" by (simp add: marker_length)
    show ?thesis
    proof (cases "length rest < length (c # cs)")
      case True
      have ih: "t \<in> set (text_split_from [] rest) \<Longrightarrow> length t \<le> length ([]::string) + length rest"
        using "2.IH"(2) Some p True by blast
      from "2.prems" Some p True have "t = literal \<or> t = m \<or> t \<in> set (text_split_from [] rest)"
        by auto
      with ih len show ?thesis by auto
    next
      case False
      with 2 Some p show ?thesis by auto
    qed
  qed
qed

lemma exec_suffix: "exec m s = Some r \<Longrightarrow> \<exists>k. m (drop k s) = Some r"
proof (induction s)
  case Nil then show ?case by auto
next
  case (Cons c cs)
  show ?case
  proof (cases "m (c # cs)")
    case None
    with Cons obtain k where "m (drop k cs) = Some r" by auto
    then have "m (drop (Suc k) (c # cs)) = Some r" by simp
    then show ?thesis by blast
  next
    case (Some a)
    with Cons have "m (drop 0 (c # cs)) = Some r" by simp
    then show ?thesis by blast
  qed
qed

lemma conditionalMatch_at_length:
  assumes "conditionalMatch_at s = Some (m1, m2, m3)"
  shows "length m2 < length s \<and> (\<forall>t. m3 = Some t \<longrightarrow> length t < length s)"
proof -
  let ?r1 = "dropWhile (\<lambda>c. c \<noteq> CHR ''?'') (drop 2 s)"
  let ?g2 = "takeWhile (\<lambda>c. c \<noteq> CHR '':'') (drop 1 ?r1)"
  let ?r2 = "dropWhile (\<lambda>c. c \<noteq> CHR '':'') (drop 1 ?r1)"
  let ?g3 = "takeWhile (\<lambda>c. c \<noteq> CHR ''}'') (drop 1 ?r2)"
  from assms have st: "starts_with s ''?{''" by (auto simp: conditionalMatch_at_def split: if_splits)
  then have two: "2 \<le> length s" using starts_with_length by fastforce
  have l1: "length ?r1 \<le> length (drop 2 s)" by (rule length_dropWhile_le)
  have l2: "length ?g2 \<le> length (drop 1 ?r1)" by (rule length_takeWhile_le)
  have l2': "length ?r2 \<le> length (drop 1 ?r1)" by (rule length_dropWhile_le)
  have l3: "length ?g3 \<le> length (drop 1 ?r2)" by (rule length_takeWhile_le)
  from assms st have "m2 = ?g2 \<or> (\<exists>k. m2 = take k ?g2)"
    by (auto simp: conditionalMatch_at_def Let_def split: if_splits)
  then have "length m2 \<le> length ?g2" by auto
  with l1 l2 two have a: "length m2 < length s" by auto
  from assms st have "\<forall>t. m3 = Some t \<longrightarrow> t = ?g3"
    by (auto simp: conditionalMatch_at_def Let_def split: if_splits)
  with l1 l2' l3 two have b: "\<forall>t. m3 = Some t \<longrightarrow> length t < length s" by auto
  from a b show ?thesis by simp
qed

lemma exec_conditionalMatch_length:
  assumes "exec conditionalMatch_at s = Some (m1, m2, m3)"
  shows "length m2 < length s \<and> (\<forall>t. m3 = Some t \<longrightarrow> length t < length s)"
proof -
  from exec_suffix [OF assms] obtain k where "conditionalMatch_at (drop k s) = Some (m1, m2, m3)" by blast
  from conditionalMatch_at_length [OF this] show ?thesis by auto
qed

text \<open>Every nested text is compiled from a proper part of the string.\<close>

termination Text_new
proof (relation "measure (\<lambda>(new_conditional, str, ns). length str)", goal_cases)
  case 1
  then show ?case by simp
next
  case (2 new_conditional str ns token x2 x y r1 r2 c)
  then have "length token \<le> length str" using text_split_length [of token "[]" str] by auto
  with 2 exec_conditionalMatch_length [of token x r1 r2] show ?case by auto
next
  case (3 new_conditional str ns token x2 x y r1 r2 c t m3)
  then have "length token \<le> length str" using text_split_length [of token "[]" str] by auto
  with 3 exec_conditionalMatch_length [of token x r1 "Some m3"] show ?case by auto
qed

declare Text_new.simps [simp del]

section \<open>Termination of the traversal loop\<close>

declare string_of_nat.simps [simp del]

text \<open>An accepted choice has consumed at least one line of input.\<close>

lemma getChoice_consumes:
  "getChoice to_number n inputs out = (Some response, inputs', out') \<Longrightarrow> length inputs' < length inputs"
proof (induction inputs arbitrary: out)
  case Nil
  then show ?case by simp
next
  case (Cons line inputs)
  let ?c = "to_number (trim line)"
  show ?case
  proof (cases "?c = NaN \<or> num_less ?c (Fin 1) \<or> num_less (Fin (of_nat n)) ?c")
    case True
    with Cons.prems obtain out1 where
      "getChoice to_number n inputs out1 = (Some response, inputs', out')"
      by (simp add: Let_def)
    from Cons.IH [OF this] show ?thesis by simp
  next
    case False
    with Cons.prems have "inputs' = inputs" by (simp add: Let_def)
    then show ?thesis by simp
  qed
qed

lemma measure_scene: "(case c of None \<Rightarrow> 0 | Some (sc :: 'c scene) \<Rightarrow> Suc 0) \<le> Suc 0"
  by (cases c) auto

text \<open>Every turn of the loop consumes a line of input, pops the history or ends the run.\<close>

termination runAdventure_loop
proof (relation "measure (\<lambda>(ev, sh, num, scenes, currentScene, history, vars, inputs, out).
          length inputs + length (items history) + (case currentScene of None \<Rightarrow> 0 | Some sc \<Rightarrow> Suc 0))",
       goal_cases)
  case 1
  then show ?case by simp
next
  case (2 ev sh num scenes currentScene history vars inputs out sc nsp popped history')
  then have p: "FixedSizeStack_pop history = (popped, history')" by simp
  show ?case
  proof (cases "items history")
    case Nil
    with p have "popped = None" "history' = history" by (auto simp: FixedSizeStack_pop_def)
    with 2(1) show ?thesis by simp
  next
    case (Cons x xs)
    with p have "popped = Some x" "items history' = xs" by (auto simp: FixedSizeStack_pop_def)
    with 2(1) Cons show ?thesis by simp
  qed
next
  case (3 ev sh num scenes currentScene history vars inputs out sc nsp r vars1 out1 l line inputs' vars2)
  have "(case follow scenes (target (hd (options sc))) of None \<Rightarrow> 0 | Some sc \<Rightarrow> Suc 0) \<le> Suc 0"
    by (rule measure_scene)
  with 3(1) 3(12) show ?case by simp
next
  case (4 ev sh num scenes currentScene history vars inputs out sc nsp r vars1 out1 p av un lines
          c rest response inputs' out2 chosenOption vars2)
  then have "getChoice num (length (options sc)) inputs (out1 @ lines) = (Some response, inputs', out2)"
    by simp
  then have less: "length inputs' < length inputs" by (rule getChoice_consumes)
  have "(case follow scenes (target chosenOption) of None \<Rightarrow> 0 | Some sc \<Rightarrow> Suc 0) \<le> Suc 0"
    by (rule measure_scene)
  with 4(1) less show ?case by simp
qed

declare runAdventure_loop.simps [simp del]

section \<open>Properties of the identifier resolver\<close>

lemma split_on_nonempty: "split_on c s \<noteq> []"
  by (induction s) (auto split: list.splits)

lemma length_split_on: "length (split_on c s) = Suc (count_list s c)"
  by (induction s) (auto split: list.splits simp: split_on_nonempty)

lemma split_on_no_sep: "count_list s c = 0 \<Longrightarrow> split_on c s = [s]"
  by (induction s) (auto split: if_splits)

lemma split_on_one_sep:
  "count_list s c = 1 \<Longrightarrow> \<exists>a b. split_on c s = [a, b] \<and> s = a @ [c] @ b"
proof (induction s)
  case Nil
  then show ?case by simp
next
  case (Cons x xs)
  show ?case
  proof (cases "x = c")
    case True
    with Cons.prems have "count_list xs c = 0" by simp
    then have "split_on c xs = [xs]" by (rule split_on_no_sep)
    with True show ?thesis by simp
  next
    case False
    with Cons.prems have "count_list xs c = 1" by simp
    with Cons.IH obtain a b where "split_on c xs = [a, b]" "xs = a @ [c] @ b" by blast
    with False have "split_on c (x # xs) = [x # a, b] \<and> x # xs = (x # a) @ [c] @ b" by simp
    then show ?thesis by blast
  qed
qed

text \<open>
  Claim C9. A raw string without a colon is prefixed with the default namespace, and a raw
  string with exactly one colon is returned verbatim. With more than one colon the outcome
  depends on the optional third argument: a call that passes a parser context ends in the
  malformed-identifier diagnostic, and a call with two arguments is a \<open>TypeError\<close>,
  since \<open>context.throwError\<close> is then called on \<open>undefined\<close>. The first statement of
  the function guards the context (\<open>context && ...\<close>); the call of \<open>throwError\<close>
  does not. So \<open>parse("x","ns")\<close> is \<open>ns:x\<close> and \<open>parse("a:x","ns")\<close> is
  \<open>a:x\<close>, and \<open>parse("a:b:x","ns")\<close> raises, but a \<open>TypeError\<close> and not the
  malformed-identifier error.
\<close>

theorem parseIdentifier_cases:
  "parseIdentifier raw ns ctx =
     (if count_list raw CHR '':'' = 0 then Inr (ns @ '':'' @ raw)
      else if count_list raw CHR '':'' = 1 then Inr raw
      else if ctx then Inl (ParserError ''identifier'' (''Malformed identifier '' @ raw @ ''.''))
      else Inl TypeError)
   \<and> parseIdentifier ''x'' ''ns'' False = Inr ''ns:x''
   \<and> parseIdentifier ''a:x'' ''ns'' False = Inr ''a:x''
   \<and> parseIdentifier ''a:b:x'' ''ns'' False = Inl TypeError
   \<and> parseIdentifier ''a:b:x'' ''ns'' True
       = Inl (ParserError ''identifier'' ''Malformed identifier a:b:x.'')"
proof (intro conjI)
  show "parseIdentifier raw ns ctx =
     (if count_list raw CHR '':'' = 0 then Inr (ns @ '':'' @ raw)
      else if count_list raw CHR '':'' = 1 then Inr raw
      else if ctx then Inl (ParserError ''identifier'' (''Malformed identifier '' @ raw @ ''.''))
      else Inl TypeError)"
  proof (cases "count_list raw CHR '':'' = 0")
    case True
    then have "split_on CHR '':'' raw = [raw]" by (rule split_on_no_sep)
    with True show ?thesis by (simp add: parseIdentifier_def asIdentifier_def)
  next
    case False
    show ?thesis
    proof (cases "count_list raw CHR '':'' = 1")
      case True
      then obtain a b where "split_on CHR '':'' raw = [a, b]" "raw = a @ [CHR '':''] @ b"
        using split_on_one_sep by blast
      with True show ?thesis by (simp add: parseIdentifier_def asIdentifier_def)
    next
      case more: False
      with False have "2 < length (split_on CHR '':'' raw)" by (simp add: length_split_on)
      with False more show ?thesis by (simp add: parseIdentifier_def)
    qed
  qed
qed (simp_all add: parseIdentifier_def asIdentifier_def)

section \<open>Properties of actions\<close>

lemmas action_eval_simps =
  run_action_def Action_evaluate_def action_evaluator_def starts_with_def is_operator_def
  lookup_def pop_def bottom_def apply_operator_def num_add_def num_sub_def num_mul_def
  num_div_def

lemma compile_parenthesised:
  "Action_new ''y=(7-2)*x+7'' ''test'' =
     Inr \<lparr>variableName = ''test:y'', operator = ''='',
          evaluator = [QNum 7, QNum 2, QStr ''-'', QStr ''vtest:x'', QStr ''*'', QNum 7, QStr ''+'']\<rparr>"
  by code_simp

lemma compile_division_chain:
  "Action_new ''y=8/4/2'' ''test'' =
     Inr \<lparr>variableName = ''test:y'', operator = ''='',
          evaluator = [QNum 8, QNum 4, QNum 2, QStr ''/'', QStr ''/'']\<rparr>"
  by code_simp

lemma compile_product_remainder:
  "Action_new ''y=2*7%4'' ''test'' =
     Inr \<lparr>variableName = ''test:y'', operator = ''='',
          evaluator = [QNum 2, QNum 7, QNum 4, QStr ''%'', QStr ''*'']\<rparr>"
  by code_simp

lemma compile_compound:
  "Action_new ''b+=3'' ''test'' =
     Inr \<lparr>variableName = ''test:b'', operator = ''+='', evaluator = [QNum 3]\<rparr>"
  by code_simp

lemma compile_self_reference:
  "Action_new ''b=b+3'' ''test'' =
     Inr \<lparr>variableName = ''test:b'', operator = ''='',
          evaluator = [QStr ''vtest:b'', QNum 3, QStr ''+'']\<rparr>"
  by code_simp

lemma rem_7_4: "num_rem (Fin 7) (Fin 4) = Fin 3"
  by code_simp

text \<open>
  Claim C2. The test expression \<open>(7-2)*x+7\<close> with \<open>x = 4\<close> evaluates to 27, but the
  compiled evaluator is not standard infix evaluation: a stacked \<open>*\<close>, \<open>/\<close> or \<open>%\<close> is
  only popped by an incoming \<open>+\<close> or \<open>-\<close>, so a chain of \<open>*\<close>, \<open>/\<close>, \<open>%\<close> groups to
  the right. \<open>8/4/2\<close> evaluates to \<open>8/(4/2) = 4\<close>, where left-associative division gives 1,
  and \<open>2*7%4\<close> evaluates to \<open>2*(7%4) = 6\<close>, where left-associative evaluation gives 2.
\<close>

theorem Action_chain_groups_right:
  "run_action ''y=(7-2)*x+7'' ''test'' [''test:x'' \<mapsto> Number (Fin 4)]
     = Inr [''test:x'' \<mapsto> Number (Fin 4), ''test:y'' \<mapsto> Number (Fin 27)]
   \<and> run_action ''y=8/4/2'' ''test'' Map.empty = Inr [''test:y'' \<mapsto> Number (Fin 4)]
   \<and> (8 :: rat) / 4 / 2 = 1
   \<and> run_action ''y=2*7%4'' ''test'' Map.empty = Inr [''test:y'' \<mapsto> Number (Fin 6)]"
  by (simp add: action_eval_simps rem_7_4 compile_parenthesised compile_division_chain
        compile_product_remainder)

text \<open>
  Claim C7. A compound action on a variable that was never assigned raises nothing:
  \<open>b+=3\<close> on the empty store reads \<open>undefined\<close>, adds 3 and writes \<open>NaN\<close> to
  \<open>test:b\<close>, whereas the equivalent \<open>b=b+3\<close> raises the undefined-variable error. On
  an assigned variable the compound action reads the value and writes the sum.
\<close>

theorem compound_on_absent_writes_NaN:
  "run_action ''b+=3'' ''test'' Map.empty = Inr [''test:b'' \<mapsto> Number NaN]
   \<and> run_action ''b=b+3'' ''test'' Map.empty = Inl (UndefinedVariable ''test:b'')
   \<and> run_action ''b+=3'' ''test'' [''test:b'' \<mapsto> Number (Fin 5)]
       = Inr [''test:b'' \<mapsto> Number (Fin 8)]"
  by (simp add: action_eval_simps compile_compound compile_self_reference)

section \<open>Properties of the condition evaluator\<close>

lemma num_le_Fin [simp]: "num_le (Fin a) (Fin b) = (a \<le> b)"
  by (auto simp: num_le_def num_less_def num_eq_def)

lemma num_less_Fin [simp]: "num_less (Fin a) (Fin b) = (a < b)"
  by (simp add: num_less_def)

lemma num_eq_Fin [simp]: "num_eq (Fin a) (Fin b) = (a = b)"
  by (simp add: num_eq_def)

lemmas postfix_eval_simps =
  run_postfix_def cond_evaluator_def lookup_def starts_with_def is_cond_operator_def pop_def
  cond_apply_def bottom_def

lemma postfix_two_sided:
  "Conditional_createEvaluator ''x=4..7'' ''test'' =
     Inr [QStr ''vtest:x'', QNum 4, QStr ''>='', QStr ''vtest:x'', QNum 7, QStr ''<='', QStr ''&&'']"
  by code_simp

lemma postfix_lower_only:
  "Conditional_createEvaluator ''x=4..'' ''test'' = Inr [QStr ''vtest:x'', QNum 4, QStr ''='']"
  by code_simp

lemma postfix_two_sided_value:
  "run_postfix ''x=4..7'' ''test'' [''test:x'' \<mapsto> Number (Fin v)] = Inr (4 \<le> v \<and> v \<le> 7)"
  by (simp add: postfix_eval_simps postfix_two_sided)

lemma postfix_lower_only_value:
  "run_postfix ''x=4..'' ''test'' [''test:x'' \<mapsto> Number (Fin v)] = Inr (v = 4)"
  by (simp add: postfix_eval_simps postfix_lower_only)

lemma range_test_postfix:
  "run_postfix ''(x=4..7 && y=12..15) || z=1'' ''test''
     [''test:x'' \<mapsto> Number (Fin 5), ''test:y'' \<mapsto> Number (Fin 13), ''test:z'' \<mapsto> Number (Fin 0)]
     = Inr True"
  "run_postfix ''(x=4..7 && y=12..15) || z=1'' ''test''
     [''test:x'' \<mapsto> Number (Fin 3), ''test:y'' \<mapsto> Number (Fin 12), ''test:z'' \<mapsto> Number (Fin 0)]
     = Inr False"
  by code_simp+

lemma postfix_upper_only:
  "Conditional_createEvaluator ''x=..7'' ''test'' = Inr [QStr ''vtest:x'', QNum 7, QStr ''='']"
  by code_simp

lemma postfix_decimal_bound:
  "Conditional_createEvaluator ''x=0.1..1'' ''test''
     = Inr [QStr ''vtest:x'', QNum 0, QNum 1, QNum 1, QStr ''='']"
  by code_simp

lemma postfix_upper_only_value:
  "run_postfix ''x=..7'' ''test'' [''test:x'' \<mapsto> Number (Fin v)] = Inr (v = 7)"
  by (simp add: postfix_eval_simps postfix_upper_only)

lemma postfix_decimal_bound_value:
  "run_postfix ''x=0.1..1'' ''test'' [''test:x'' \<mapsto> Number (Fin v)] = Inr (v \<noteq> 0)"
  by (simp add: postfix_eval_simps postfix_decimal_bound)

text \<open>
  Claim C3. The two-sided range with integer bounds is rewritten and evaluated as the
  inclusive interval: \<open>x=4..7\<close> is true exactly for \<open>4 \<le> x \<le> 7\<close>, and the two
  examples of the specification come out true and false. There is no rule for the
  one-sided forms, and the tokenizer skips the dots: \<open>x=4..\<close> compiles to the equality
  \<open>x = 4\<close>, so it is false for \<open>x = 5\<close>, and \<open>x=..7\<close> compiles to \<open>x = 7\<close>. A
  bound with a decimal point is not rewritten either: \<open>x=0.1..1\<close> compiles to the queue
  \<open>x 0 1 1 =\<close>, whose result is \<open>Boolean(x)\<close>, true for \<open>x = 5\<close>.
\<close>

theorem range_rewriting:
  "run_postfix ''x=4..7'' ''test'' [''test:x'' \<mapsto> Number (Fin v)] = Inr (4 \<le> v \<and> v \<le> 7)
   \<and> run_postfix ''(x=4..7 && y=12..15) || z=1'' ''test''
        [''test:x'' \<mapsto> Number (Fin 5), ''test:y'' \<mapsto> Number (Fin 13), ''test:z'' \<mapsto> Number (Fin 0)]
       = Inr True
   \<and> run_postfix ''(x=4..7 && y=12..15) || z=1'' ''test''
        [''test:x'' \<mapsto> Number (Fin 3), ''test:y'' \<mapsto> Number (Fin 12), ''test:z'' \<mapsto> Number (Fin 0)]
       = Inr False
   \<and> Conditional_createEvaluator ''x=4..'' ''test'' = Inr [QStr ''vtest:x'', QNum 4, QStr ''='']
   \<and> run_postfix ''x=4..'' ''test'' [''test:x'' \<mapsto> Number (Fin v)] = Inr (v = 4)
   \<and> run_postfix ''x=4..'' ''test'' [''test:x'' \<mapsto> Number (Fin 5)] = Inr False
   \<and> run_postfix ''x=..7'' ''test'' [''test:x'' \<mapsto> Number (Fin v)] = Inr (v = 7)
   \<and> run_postfix ''x=0.1..1'' ''test'' [''test:x'' \<mapsto> Number (Fin v)] = Inr (v \<noteq> 0)
   \<and> run_postfix ''x=0.1..1'' ''test'' [''test:x'' \<mapsto> Number (Fin 5)] = Inr True"
  using postfix_lower_only_value [of 5] postfix_decimal_bound_value [of 5]
  by (simp only: postfix_two_sided_value range_test_postfix postfix_lower_only
        postfix_lower_only_value postfix_upper_only_value postfix_decimal_bound_value) simp

section \<open>Reads of variables that were never written\<close>

text \<open>A walk over a queue that holds a variable without a value ends in the
  undefined-variable error, whatever the operand stack.\<close>

lemma lookup_absent: "vars n = None \<Longrightarrow> lookup vars n = Undefined"
  by (simp add: lookup_def)

lemma action_walk_undefined:
  "QStr (CHR ''v'' # n) \<in> set queue \<Longrightarrow> lookup vars n = Undefined \<Longrightarrow>
   \<exists>m. action_walk vars queue stack = Inl (UndefinedVariable m) \<and> lookup vars m = Undefined"
proof (induction queue arbitrary: stack)
  case Nil
  then show ?case by simp
next
  case (Cons t queue)
  show ?case
  proof (cases t)
    case (QNum q)
    with Cons show ?thesis by simp
  next
    case (QStr s)
    show ?thesis
    proof (cases "starts_with s ''v''")
      case True
      show ?thesis
      proof (cases "lookup vars (drop 1 s) = Undefined")
        case True
        with QStr \<open>starts_with s ''v''\<close> show ?thesis by (simp add: Let_def)
      next
        case False
        with Cons.prems QStr have "QStr (CHR ''v'' # n) \<in> set queue" by auto
        from Cons.IH [OF this Cons.prems(2)] QStr True False show ?thesis by (simp add: Let_def)
      qed
    next
      case False
      with Cons.prems QStr have "QStr (CHR ''v'' # n) \<in> set queue"
        by (auto simp: starts_with_def)
      from Cons.IH [OF this Cons.prems(2)] QStr False show ?thesis
        by (simp add: pop_def split: list.splits)
    qed
  qed
qed

lemma cond_walk_undefined:
  "QStr (CHR ''v'' # n) \<in> set queue \<Longrightarrow> lookup vars n = Undefined \<Longrightarrow>
   \<exists>m. cond_walk vars queue stack = Inl (UndefinedVariable m) \<and> lookup vars m = Undefined"
proof (induction queue arbitrary: stack)
  case Nil
  then show ?case by simp
next
  case (Cons t queue)
  show ?case
  proof (cases t)
    case (QNum q)
    with Cons show ?thesis by simp
  next
    case (QStr s)
    show ?thesis
    proof (cases "starts_with s ''v''")
      case True
      show ?thesis
      proof (cases "lookup vars (drop 1 s) = Undefined")
        case True
        with QStr \<open>starts_with s ''v''\<close> show ?thesis by (simp add: Let_def)
      next
        case False
        with Cons.prems QStr have "QStr (CHR ''v'' # n) \<in> set queue" by auto
        from Cons.IH [OF this Cons.prems(2)] QStr True False show ?thesis by (simp add: Let_def)
      qed
    next
      case False
      with Cons.prems QStr have "QStr (CHR ''v'' # n) \<in> set queue"
        by (auto simp: starts_with_def)
      from Cons.IH [OF this Cons.prems(2)] QStr False show ?thesis
        by (simp add: pop_def split: list.splits)
    qed
  qed
qed

text \<open>The shunting-yard loops only append to the output queue, and every token that
  \<open>variableRegex\<close> accepts is appended as a variable.\<close>

lemma alpha_not_digit: "is_alpha c \<or> c = CHR ''_'' \<Longrightarrow> \<not> is_digit c"
  by (auto simp: is_alpha_def is_digit_def)

lemma variable_not_number: "variableRegex t \<Longrightarrow> \<not> numberRegex t"
  by (cases t) (auto simp: variableRegex_def numberRegex_def Let_def alpha_not_digit)

lemma action_pop_operators_out:
  "action_pop_operators token out stack = (out', stack') \<Longrightarrow> set out \<subseteq> set out'"
  by (induction stack arbitrary: out) (fastforce split: if_splits)+

lemma cond_pop_operators_out:
  "cond_pop_operators token out stack = (out', stack') \<Longrightarrow> set out \<subseteq> set out'"
  by (induction stack arbitrary: out) (fastforce split: if_splits)+

lemma pop_to_open_out:
  "pop_to_open out stack = (out', stack') \<Longrightarrow> set out \<subseteq> set out'"
  by (induction stack arbitrary: out) (fastforce split: if_splits)+

lemma action_shunting_yard_step:
  assumes "action_shunting_yard e ns (t # tokens) out stack = Inr r"
  shows "\<exists>out1 stack1. action_shunting_yard e ns tokens out1 stack1 = Inr r \<and> set out \<subseteq> set out1
           \<and> (variableRegex t \<longrightarrow>
                (\<exists>ident. parseIdentifier t ns False = Inr ident \<and> QStr (CHR ''v'' # ident) \<in> set out1))"
proof (cases "numberRegex t")
  case True
  with assms have "action_shunting_yard e ns tokens (out @ [QNum (decimal t)]) stack = Inr r" by simp
  moreover from True have "\<not> variableRegex t" using variable_not_number by blast
  ultimately show ?thesis by fastforce
next
  case nn: False
  show ?thesis
  proof (cases "variableRegex t")
    case True
    with nn assms obtain ident where
      "parseIdentifier t ns False = Inr ident"
      "action_shunting_yard e ns tokens (out @ [QStr (CHR ''v'' # ident)]) stack = Inr r"
      by (auto split: sum.splits)
    then show ?thesis by fastforce
  next
    case nv: False
    show ?thesis
    proof (cases "is_operator t")
      case True
      obtain o1 s1 where p: "action_pop_operators t out stack = (o1, s1)"
        by (cases "action_pop_operators t out stack")
      with nn nv True assms have "action_shunting_yard e ns tokens o1 (t # s1) = Inr r" by simp
      with action_pop_operators_out [OF p] nv show ?thesis by blast
    next
      case no: False
      show ?thesis
      proof (cases "t = ''(''")
        case True
        with nn nv no assms have "action_shunting_yard e ns tokens out (t # stack) = Inr r" by simp
        with nv show ?thesis by blast
      next
        case np: False
        show ?thesis
        proof (cases "t = '')''")
          case True
          obtain o1 s1 where p: "pop_to_open out stack = (o1, s1)" by (cases "pop_to_open out stack")
          with nn nv no np True assms obtain s2 where
            "action_shunting_yard e ns tokens o1 s2 = Inr r"
            by (auto split: list.splits)
          with pop_to_open_out [OF p] nv show ?thesis by blast
        next
          case False
          with nn nv no np assms have "action_shunting_yard e ns tokens out stack = Inr r" by simp
          with nv show ?thesis by blast
        qed
      qed
    qed
  qed
qed

lemma action_shunting_yard_out:
  "action_shunting_yard e ns tokens out stack = Inr (out', stack') \<Longrightarrow> set out \<subseteq> set out'"
proof (induction tokens arbitrary: out stack)
  case Nil
  then show ?case by simp
next
  case (Cons t tokens)
  from action_shunting_yard_step [OF Cons.prems] obtain out1 stack1 where
    "action_shunting_yard e ns tokens out1 stack1 = Inr (out', stack')" "set out \<subseteq> set out1"
    by blast
  with Cons.IH show ?case by blast
qed

lemma action_shunting_yard_variables:
  "action_shunting_yard e ns tokens out stack = Inr (out', stack') \<Longrightarrow> t \<in> set tokens \<Longrightarrow>
   variableRegex t \<Longrightarrow>
   \<exists>ident. parseIdentifier t ns False = Inr ident \<and> QStr (CHR ''v'' # ident) \<in> set out'"
proof (induction tokens arbitrary: out stack)
  case Nil
  then show ?case by simp
next
  case (Cons h tokens)
  from action_shunting_yard_step [OF Cons.prems(1)] obtain out1 stack1 where
    step: "action_shunting_yard e ns tokens out1 stack1 = Inr (out', stack')"
    and var: "variableRegex h \<longrightarrow>
          (\<exists>ident. parseIdentifier h ns False = Inr ident \<and> QStr (CHR ''v'' # ident) \<in> set out1)"
    by blast
  show ?case
  proof (cases "t = h")
    case True
    with var Cons.prems(3) obtain ident where
      "parseIdentifier t ns False = Inr ident" "QStr (CHR ''v'' # ident) \<in> set out1" by blast
    with action_shunting_yard_out [OF step] show ?thesis by blast
  next
    case False
    with Cons.prems(2) have "t \<in> set tokens" by simp
    from Cons.IH [OF step this Cons.prems(3)] show ?thesis .
  qed
qed

lemma Action_createEvaluator_variables:
  assumes "Action_createEvaluator expression ns = Inr queue"
    and "t \<in> set (match_all actionTokenRegex expression)" and "variableRegex t"
  shows "\<exists>ident. parseIdentifier t ns False = Inr ident \<and> QStr (CHR ''v'' # ident) \<in> set queue"
proof -
  from assms(1) obtain out stack where
    sy: "action_shunting_yard expression ns (match_all actionTokenRegex expression) [] [] = Inr (out, stack)"
    and q: "queue = out @ map QStr stack"
    by (auto simp: Action_createEvaluator_def Let_def split: if_splits sum.splits)
  from action_shunting_yard_variables [OF sy assms(2,3)] q show ?thesis by auto
qed

lemma cond_shunting_yard_step:
  assumes "cond_shunting_yard ns (t # tokens) out stack = Inr r"
  shows "\<exists>out1 stack1. cond_shunting_yard ns tokens out1 stack1 = Inr r \<and> set out \<subseteq> set out1
           \<and> (variableRegex t \<longrightarrow>
                (\<exists>ident. parseIdentifier t ns False = Inr ident \<and> QStr (CHR ''v'' # ident) \<in> set out1))"
proof (cases "numberRegex t")
  case True
  with assms have "cond_shunting_yard ns tokens (out @ [QNum (decimal t)]) stack = Inr r" by simp
  moreover from True have "\<not> variableRegex t" using variable_not_number by blast
  ultimately show ?thesis by fastforce
next
  case nn: False
  show ?thesis
  proof (cases "variableRegex t")
    case True
    with nn assms obtain ident where
      "parseIdentifier t ns False = Inr ident"
      "cond_shunting_yard ns tokens (out @ [QStr (CHR ''v'' # ident)]) stack = Inr r"
      by (auto split: sum.splits)
    then show ?thesis by fastforce
  next
    case nv: False
    show ?thesis
    proof (cases "is_cond_operator t")
      case True
      obtain o1 s1 where p: "cond_pop_operators t out stack = (o1, s1)"
        by (cases "cond_pop_operators t out stack")
      with nn nv True assms have "cond_shunting_yard ns tokens o1 (t # s1) = Inr r" by simp
      with cond_pop_operators_out [OF p] nv show ?thesis by blast
    next
      case no: False
      show ?thesis
      proof (cases "t = ''(''")
        case True
        with nn nv no assms have "cond_shunting_yard ns tokens out (t # stack) = Inr r" by simp
        with nv show ?thesis by blast
      next
        case np: False
        show ?thesis
        proof (cases "t = '')''")
          case True
          obtain o1 s1 where p: "pop_to_open out stack = (o1, s1)" by (cases "pop_to_open out stack")
          with nn nv no np True assms have "cond_shunting_yard ns tokens o1 (drop 1 s1) = Inr r"
            by simp
          with pop_to_open_out [OF p] nv show ?thesis by blast
        next
          case False
          with nn nv no np assms have "cond_shunting_yard ns tokens out stack = Inr r" by simp
          with nv show ?thesis by blast
        qed
      qed
    qed
  qed
qed

lemma cond_shunting_yard_out:
  "cond_shunting_yard ns tokens out stack = Inr (out', stack') \<Longrightarrow> set out \<subseteq> set out'"
proof (induction tokens arbitrary: out stack)
  case Nil
  then show ?case by simp
next
  case (Cons t tokens)
  from cond_shunting_yard_step [OF Cons.prems] obtain out1 stack1 where
    "cond_shunting_yard ns tokens out1 stack1 = Inr (out', stack')" "set out \<subseteq> set out1"
    by blast
  with Cons.IH show ?case by blast
qed

lemma cond_shunting_yard_variables:
  "cond_shunting_yard ns tokens out stack = Inr (out', stack') \<Longrightarrow> t \<in> set tokens \<Longrightarrow>
   variableRegex t \<Longrightarrow>
   \<exists>ident. parseIdentifier t ns False = Inr ident \<and> QStr (CHR ''v'' # ident) \<in> set out'"
proof (induction tokens arbitrary: out stack)
  case Nil
  then show ?case by simp
next
  case (Cons h tokens)
  from cond_shunting_yard_step [OF Cons.prems(1)] obtain out1 stack1 where
    step: "cond_shunting_yard ns tokens out1 stack1 = Inr (out', stack')"
    and var: "variableRegex h \<longrightarrow>
          (\<exists>ident. parseIdentifier h ns False = Inr ident \<and> QStr (CHR ''v'' # ident) \<in> set out1)"
    by blast
  show ?case
  proof (cases "t = h")
    case True
    with var Cons.prems(3) obtain ident where
      "parseIdentifier t ns False = Inr ident" "QStr (CHR ''v'' # ident) \<in> set out1" by blast
    with cond_shunting_yard_out [OF step] show ?thesis by blast
  next
    case False
    with Cons.prems(2) have "t \<in> set tokens" by simp
    from Cons.IH [OF step this Cons.prems(3)] show ?thesis .
  qed
qed

lemma Conditional_createEvaluator_variables:
  assumes "Conditional_createEvaluator conditional ns = Inr queue"
    and "t \<in> set (match_all conditionalTokenRegex
                    (replace_all numberRangeRegex (filter (\<lambda>c. \<not> is_space c) conditional)))"
    and "variableRegex t"
  shows "\<exists>ident. parseIdentifier t ns False = Inr ident \<and> QStr (CHR ''v'' # ident) \<in> set queue"
proof -
  let ?tokens = "match_all conditionalTokenRegex
                   (replace_all numberRangeRegex (filter (\<lambda>c. \<not> is_space c) conditional))"
  from assms(1) obtain out stack where
    sy: "cond_shunting_yard ns ?tokens [] [] = Inr (out, stack)"
    and q: "queue = out @ map QStr stack"
    by (auto simp: Conditional_createEvaluator_def Let_def split: if_splits sum.splits)
  from cond_shunting_yard_variables [OF sy assms(2,3)] q show ?thesis by auto
qed

lemma action_evaluator_undefined:
  "QStr (CHR ''v'' # n) \<in> set queue \<Longrightarrow> vars n = None \<Longrightarrow>
   \<exists>m. action_evaluator queue vars = Inl (UndefinedVariable m) \<and> lookup vars m = Undefined"
  using action_walk_undefined [of n queue vars "[]"] by (auto simp: action_evaluator_def lookup_absent)

lemma cond_evaluator_undefined:
  "QStr (CHR ''v'' # n) \<in> set queue \<Longrightarrow> vars n = None \<Longrightarrow>
   \<exists>m. cond_evaluator queue vars = Inl (UndefinedVariable m) \<and> lookup vars m = Undefined"
  using cond_walk_undefined [of n queue vars "[]"] by (auto simp: cond_evaluator_def lookup_absent)

lemma conditional_text_raises:
  "evaluate_conditional c vars = Inl e \<Longrightarrow>
   fragment_evaluate evaluate_conditional to_string vars (Conditional_text c t1 t2) = Inl e"
  by (cases t2) simp_all

lemma compile_undefinedVar:
  "Action_new ''c=undefinedVar+1'' ''test'' =
     Inr \<lparr>variableName = ''test:c'', operator = ''='',
          evaluator = [QStr ''vtest:undefinedVar'', QNum 1, QStr ''+'']\<rparr>"
  by code_simp

text \<open>
  Claim C4, amended. An Action raises the undefined-variable error when a variable of its
  expression was never written, and so does a Conditional compiled by
  \<open>Conditional.createEvaluator\<close> for a variable of its condition; the error names a
  variable that reads \<open>undefined\<close>. A Text passes on the error of an inline condition,
  but an interpolated variable that was never written renders as the empty string and
  raises nothing. The action \<open>c=undefinedVar+1\<close> fails when \<open>test:undefinedVar\<close> is
  absent from the store.
\<close>

theorem undefined_variable_law:
  "(Action_new act ns = Inr a \<and> QStr (CHR ''v'' # n) \<in> set (evaluator a) \<and> vars n = None
      \<longrightarrow> (\<exists>m. Action_evaluate a vars = Inl (UndefinedVariable m) \<and> lookup vars m = Undefined))
   \<and> (Action_createEvaluator expression ns = Inr queue
        \<and> t \<in> set (match_all actionTokenRegex expression) \<and> variableRegex t
        \<and> parseIdentifier t ns False = Inr ident \<and> vars ident = None
      \<longrightarrow> (\<exists>m. action_evaluator queue vars = Inl (UndefinedVariable m) \<and> lookup vars m = Undefined))
   \<and> (Conditional_createEvaluator conditional ns = Inr cqueue
        \<and> t \<in> set (match_all conditionalTokenRegex
                      (replace_all numberRangeRegex (filter (\<lambda>c. \<not> is_space c) conditional)))
        \<and> variableRegex t \<and> parseIdentifier t ns False = Inr ident \<and> vars ident = None
      \<longrightarrow> (\<exists>m. cond_evaluator cqueue vars = Inl (UndefinedVariable m) \<and> lookup vars m = Undefined))
   \<and> (evaluate_conditional c vars = Inl e
      \<longrightarrow> fragment_evaluate evaluate_conditional to_string vars (Conditional_text c text1 text2) = Inl e)
   \<and> (vars n = None
      \<longrightarrow> fragment_evaluate evaluate_conditional to_string vars (Interpolation n) = Inr [])
   \<and> run_action ''c=undefinedVar+1'' ''test'' [''undefinedVar'' \<mapsto> Number (Fin 7)]
       = Inl (UndefinedVariable ''test:undefinedVar'')"
proof (intro conjI impI)
  assume h: "Action_new act ns = Inr a \<and> QStr (CHR ''v'' # n) \<in> set (evaluator a) \<and> vars n = None"
  then obtain m where "action_evaluator (evaluator a) vars = Inl (UndefinedVariable m)"
    "lookup vars m = Undefined"
    using action_evaluator_undefined by blast
  then show "\<exists>m. Action_evaluate a vars = Inl (UndefinedVariable m) \<and> lookup vars m = Undefined"
    by (auto simp: Action_evaluate_def)
next
  assume h: "Action_createEvaluator expression ns = Inr queue
        \<and> t \<in> set (match_all actionTokenRegex expression) \<and> variableRegex t
        \<and> parseIdentifier t ns False = Inr ident \<and> vars ident = None"
  with Action_createEvaluator_variables [of expression ns queue t]
  have "QStr (CHR ''v'' # ident) \<in> set queue" by auto
  with h show "\<exists>m. action_evaluator queue vars = Inl (UndefinedVariable m) \<and> lookup vars m = Undefined"
    using action_evaluator_undefined by blast
next
  assume h: "Conditional_createEvaluator conditional ns = Inr cqueue
        \<and> t \<in> set (match_all conditionalTokenRegex
                      (replace_all numberRangeRegex (filter (\<lambda>c. \<not> is_space c) conditional)))
        \<and> variableRegex t \<and> parseIdentifier t ns False = Inr ident \<and> vars ident = None"
  with Conditional_createEvaluator_variables [of conditional ns cqueue t]
  have "QStr (CHR ''v'' # ident) \<in> set cqueue" by auto
  with h show "\<exists>m. cond_evaluator cqueue vars = Inl (UndefinedVariable m) \<and> lookup vars m = Undefined"
    using cond_evaluator_undefined by blast
next
  assume "evaluate_conditional c vars = Inl e"
  then show "fragment_evaluate evaluate_conditional to_string vars (Conditional_text c text1 text2) = Inl e"
    by (rule conditional_text_raises)
next
  assume "vars n = None"
  then show "fragment_evaluate evaluate_conditional to_string vars (Interpolation n) = Inr []"
    by (simp add: lookup_absent)
next
  show "run_action ''c=undefinedVar+1'' ''test'' [''undefinedVar'' \<mapsto> Number (Fin 7)]
       = Inl (UndefinedVariable ''test:undefinedVar'')"
    by (simp add: action_eval_simps compile_undefinedVar)
qed

theorem undefined_variable_law_witness:
  "Action_new ''c=undefinedVar+1'' ''test''
     = Inr \<lparr>variableName = ''test:c'', operator = ''='',
            evaluator = [QStr ''vtest:undefinedVar'', QNum 1, QStr ''+'']\<rparr>
   \<and> Action_createEvaluator ''undefinedVar+1'' ''test'' = Inr [QStr ''vtest:undefinedVar'', QNum 1, QStr ''+'']
   \<and> ''undefinedVar'' \<in> set (match_all actionTokenRegex ''undefinedVar+1'')
   \<and> variableRegex ''undefinedVar''
   \<and> parseIdentifier ''undefinedVar'' ''test'' False = Inr ''test:undefinedVar''
   \<and> [''undefinedVar'' \<mapsto> Number (Fin 7)] ''test:undefinedVar'' = None
   \<and> (\<exists>m. Action_evaluate
              \<lparr>variableName = ''test:c'', operator = ''='',
               evaluator = [QStr ''vtest:undefinedVar'', QNum 1, QStr ''+'']\<rparr>
              [''undefinedVar'' \<mapsto> Number (Fin 7)] = Inl (UndefinedVariable m))
   \<and> (\<exists>m. action_evaluator [QStr ''vtest:undefinedVar'', QNum 1, QStr ''+'']
              [''undefinedVar'' \<mapsto> Number (Fin 7)] = Inl (UndefinedVariable m))
   \<and> Conditional_createEvaluator ''undefinedVar==1'' ''test''
       = Inr [QStr ''vtest:undefinedVar'', QNum 1, QStr ''=='']
   \<and> ''undefinedVar'' \<in> set (match_all conditionalTokenRegex
         (replace_all numberRangeRegex (filter (\<lambda>c. \<not> is_space c) ''undefinedVar==1'')))
   \<and> (\<exists>m. cond_evaluator [QStr ''vtest:undefinedVar'', QNum 1, QStr ''=='']
              [''undefinedVar'' \<mapsto> Number (Fin 7)] = Inl (UndefinedVariable m))
   \<and> postfix_evaluate [QStr ''vtest:undefinedVar'', QNum 1, QStr ''=='']
        [''undefinedVar'' \<mapsto> Number (Fin 7)] = Inl (UndefinedVariable ''test:undefinedVar'')
   \<and> fragment_evaluate postfix_evaluate (\<lambda>v. []) [''undefinedVar'' \<mapsto> Number (Fin 7)]
        (Conditional_text [QStr ''vtest:undefinedVar'', QNum 1, QStr ''==''] [Literal ''a''] None)
       = Inl (UndefinedVariable ''test:undefinedVar'')
   \<and> fragment_evaluate postfix_evaluate (\<lambda>v. []) [''undefinedVar'' \<mapsto> Number (Fin 7)]
        (Interpolation ''test:undefinedVar'') = Inr []"
proof -
  let ?vars = "[''undefinedVar'' \<mapsto> Number (Fin 7)]"
  let ?queue = "[QStr ''vtest:undefinedVar'', QNum 1, QStr ''+'']"
  let ?cqueue = "[QStr ''vtest:undefinedVar'', QNum 1, QStr ''=='']"
  let ?a = "\<lparr>variableName = ''test:c'', operator = ''='', evaluator = ?queue\<rparr>"
  have h1: "Action_new ''c=undefinedVar+1'' ''test'' = Inr ?a" by (rule compile_undefinedVar)
  have h2: "Action_createEvaluator ''undefinedVar+1'' ''test'' = Inr ?queue" by code_simp
  have h3: "''undefinedVar'' \<in> set (match_all actionTokenRegex ''undefinedVar+1'')" by code_simp
  have h4: "variableRegex ''undefinedVar''" by code_simp
  have h5: "parseIdentifier ''undefinedVar'' ''test'' False = Inr ''test:undefinedVar''" by code_simp
  have h6: "?vars ''test:undefinedVar'' = None" by simp
  have h7: "Conditional_createEvaluator ''undefinedVar==1'' ''test'' = Inr ?cqueue" by code_simp
  have h8: "''undefinedVar'' \<in> set (match_all conditionalTokenRegex
              (replace_all numberRangeRegex (filter (\<lambda>c. \<not> is_space c) ''undefinedVar==1'')))"
    by code_simp
  have h9: "postfix_evaluate ?cqueue ?vars = Inl (UndefinedVariable ''test:undefinedVar'')"
    by (simp add: postfix_evaluate_def postfix_eval_simps)
  have h10: "QStr (CHR ''v'' # ''test:undefinedVar'') \<in> set (evaluator ?a)" by simp
  note law = undefined_variable_law [of "''c=undefinedVar+1''" "''test''" ?a "''test:undefinedVar''" ?vars
      "''undefinedVar+1''" ?queue "''undefinedVar''" "''test:undefinedVar''" "''undefinedVar==1''" ?cqueue
      postfix_evaluate ?cqueue "UndefinedVariable ''test:undefinedVar''" "\<lambda>v. []"
      "[Literal ''a'']" None]
  from law h1 h10 h6 have c1: "\<exists>m. Action_evaluate ?a ?vars = Inl (UndefinedVariable m)" by blast
  from law h2 h3 h4 h5 h6 have c2: "\<exists>m. action_evaluator ?queue ?vars = Inl (UndefinedVariable m)"
    by blast
  from law h7 h8 h4 h5 h6 have c3: "\<exists>m. cond_evaluator ?cqueue ?vars = Inl (UndefinedVariable m)"
    by blast
  from law h9 have c5: "fragment_evaluate postfix_evaluate (\<lambda>v. []) ?vars
        (Conditional_text ?cqueue [Literal ''a''] None) = Inl (UndefinedVariable ''test:undefinedVar'')"
    by blast
  from law h6 have c6: "fragment_evaluate postfix_evaluate (\<lambda>v. []) ?vars
        (Interpolation ''test:undefinedVar'') = Inr []" by blast
  from h1 h2 h3 h4 h5 h6 c1 c2 h7 h8 c3 h9 c5 c6 show ?thesis by blast
qed

text \<open>
  Claim C4 as stated fails for Text: with an empty store the text \<open>Health: ${hp}\<close>
  compiles to a literal and a reference to \<open>test:hp\<close>, and renders as \<open>Health: \<close>
  without any error.
\<close>

theorem text_renders_absent_variable:
  "Text_new Conditional_createEvaluator ''Health: ${hp}'' ''test''
     = Inr [Literal ''Health: '', Interpolation ''test:hp'']
   \<and> render (\<lambda>v. []) ''Health: ${hp}'' ''test'' Map.empty = Inr ''Health: ''"
proof -
  have c: "Text_new Conditional_createEvaluator ''Health: ${hp}'' ''test''
     = Inr [Literal ''Health: '', Interpolation ''test:hp'']" by code_simp
  then show ?thesis by (simp add: render_def lookup_def)
qed

section \<open>Properties of the text templates\<close>

lemma compile_pipe_text:
  "Text_new Conditional_createEvaluator ''?{x==1?yes|no}'' ''test''
     = Inr [Conditional_text [QStr ''vtest:x'', QNum 1, QStr ''==''] [Literal ''yes|no''] None]"
  by code_simp

lemma compile_colon_text:
  "Text_new Conditional_createEvaluator ''?{x==1?yes:no}'' ''test''
     = Inr [Conditional_text [QStr ''vtest:x'', QNum 1, QStr ''==''] [Literal ''yes'']
              (Some [Literal ''no''])]"
  by code_simp

lemma compile_single_text:
  "Text_new Conditional_createEvaluator ''?{x==1?yes}'' ''test''
     = Inr [Conditional_text [QStr ''vtest:x'', QNum 1, QStr ''==''] [Literal ''yes''] None]"
  by code_simp

text \<open>
  Claim C8. The separator of the two texts of an inline condition is a colon in the
  constructor's regular expression, not the pipe. \<open>?{x==1?yes|no}\<close> compiles to a
  condition with the single text \<open>yes|no\<close>: it renders \<open>yes|no\<close> when \<open>x = 1\<close> and
  the empty string otherwise, never \<open>no\<close>. Written with a colon, the fragment renders
  \<open>yes\<close> or \<open>no\<close>, and without a second text \<open>yes\<close> or the empty string, at each
  rendering from the current value of \<open>x\<close>.
\<close>

theorem inline_conditional_separator:
  "Text_new Conditional_createEvaluator ''?{x==1?yes|no}'' ''test''
     = Inr [Conditional_text [QStr ''vtest:x'', QNum 1, QStr ''==''] [Literal ''yes|no''] None]
   \<and> render to_string ''?{x==1?yes|no}'' ''test'' [''test:x'' \<mapsto> Number (Fin v)]
       = Inr (if v = 1 then ''yes|no'' else [])
   \<and> render to_string ''?{x==1?yes|no}'' ''test'' [''test:x'' \<mapsto> Number (Fin 0)] = Inr []
   \<and> render to_string ''?{x==1?yes:no}'' ''test'' [''test:x'' \<mapsto> Number (Fin v)]
       = Inr (if v = 1 then ''yes'' else ''no'')
   \<and> render to_string ''?{x==1?yes}'' ''test'' [''test:x'' \<mapsto> Number (Fin v)]
       = Inr (if v = 1 then ''yes'' else [])"
  by (simp add: render_def compile_pipe_text compile_colon_text compile_single_text
        postfix_evaluate_def postfix_eval_simps)

section \<open>Properties of the traversal engine\<close>

text \<open>
  Claim C5. No transition pushes the scene it leaves: the loop only ever pops the history.
  From \<open>adventure:start\<close> the single option leads to \<open>inkspire:back\<close>, and from
  \<open>adventure:hall\<close> the numbered choice 1 does; both times \<open>back\<close> finds the history
  empty, \<open>currentScene\<close> becomes \<open>undefined\<close> and the next turn is a \<open>TypeError\<close>,
  where the claim has the scene re-entered. When the history does hold a scene, \<open>back\<close>
  pops and re-enters it: from \<open>back\<close> with \<open>adventure:hall\<close> on the history, the
  choice 2 ends the run with \<open>You win\<close>.
\<close>

theorem back_finds_empty_history:
  "demo_run ''adventure:start'' [''''] = Raised TypeError
   \<and> demo_run ''adventure:hall'' [''1''] = Raised TypeError
   \<and> runAdventure_loop postfix_evaluate (\<lambda>v. []) decimal_Number demo_scenes
         (follow demo_scenes ''inkspire:back'')
         \<lparr>capacity = MAX_RETURN_HISTORY, items = [the (follow demo_scenes ''adventure:hall'')]\<rparr>
         Map.empty [''2''] []
       = Returned [[], [], [], [], [], [], [], [], [], [], [], ''Hall'', ''...'', [],
                   ''You could...'', ''1: Turn around'', ''2: Go on'', [],
                   ''What do you do?'', ''You win'']"
  by code_simp

text \<open>
  Claim C6. The menu numbers the available options only, but the choice is checked against
  the number of all options. In \<open>adventure:fork\<close> one of the two options is available
  (\<open>wings\<close> is 0): the menu shows \<open>1: Open the door\<close> and \<open>X: Fly\<close>, the input
  \<open>3\<close> is rejected with the bound 2, and the input \<open>2\<close> is accepted although only
  choice 1 exists, so that \<open>availableOptions[1]\<close> is \<open>undefined\<close> and the run ends in a
  \<open>TypeError\<close>.
\<close>

theorem choice_checked_against_all_options:
  "demo_run ''adventure:fork'' [''3'', ''1'']
     = Returned [[], [], [], [], [], [], [], [], [], [], [], ''Fork'', ''...'', [],
                 ''You could...'', ''1: Open the door'', ''X: Fly'', [],
                 ''What do you do?'',
                 ''Select one of the options by entering a number from 1 to 2.'',
                 ''What do you do?'', ''You win'']
   \<and> demo_run ''adventure:fork'' [''2''] = Raised TypeError"
  by code_simp

section \<open>Both operands of a logical operator are evaluated\<close>

text \<open>The walk over two queues in a row is the walk over the second, started on the stack
  that the first leaves.\<close>

lemma cond_walk_append:
  "cond_walk vars (left @ right) stack =
     (case cond_walk vars left stack of Inl e \<Rightarrow> Inl e | Inr stack' \<Rightarrow> cond_walk vars right stack')"
proof (induction left arbitrary: stack)
  case Nil
  then show ?case by simp
next
  case (Cons t left)
  show ?case
  proof (cases t)
    case (QNum q)
    with Cons show ?thesis by simp
  next
    case (QStr s)
    with Cons show ?thesis by (simp add: Let_def split: prod.splits)
  qed
qed

text \<open>The error of a walk names a variable of the queue.\<close>

lemma cond_walk_undefined_in:
  "QStr (CHR ''v'' # n) \<in> set queue \<Longrightarrow> lookup vars n = Undefined \<Longrightarrow>
   \<exists>m. cond_walk vars queue stack = Inl (UndefinedVariable m) \<and> lookup vars m = Undefined
       \<and> QStr (CHR ''v'' # m) \<in> set queue"
proof (induction queue arbitrary: stack)
  case Nil
  then show ?case by simp
next
  case (Cons t queue)
  show ?case
  proof (cases t)
    case (QNum q)
    with Cons.prems have "QStr (CHR ''v'' # n) \<in> set queue" by simp
    from Cons.IH [OF this Cons.prems(2)] QNum show ?thesis by auto
  next
    case (QStr s)
    show ?thesis
    proof (cases "starts_with s ''v''")
      case True
      then obtain m where s: "s = CHR ''v'' # m" by (cases s) (auto simp: starts_with_def)
      show ?thesis
      proof (cases "lookup vars m = Undefined")
        case True
        with s QStr show ?thesis by (auto simp: starts_with_def)
      next
        case False
        with s Cons.prems have "QStr (CHR ''v'' # n) \<in> set queue" using QStr by auto
        from Cons.IH [OF this Cons.prems(2)] s QStr False show ?thesis
          by (auto simp: starts_with_def)
      qed
    next
      case False
      with Cons.prems QStr have "QStr (CHR ''v'' # n) \<in> set queue"
        by (auto simp: starts_with_def)
      from Cons.IH [OF this Cons.prems(2)] QStr False show ?thesis
        by (auto split: prod.splits)
    qed
  qed
qed

lemma decided_operand:
  assumes "cond_walk vars left [] = Inr [l]" "QStr (CHR ''v'' # n) \<in> set right" "vars n = None"
  shows "\<exists>m. cond_evaluator (left @ right @ [QStr op]) vars = Inl (UndefinedVariable m)
             \<and> lookup vars m = Undefined \<and> QStr (CHR ''v'' # m) \<in> set right"
proof -
  from assms(3) have "lookup vars n = Undefined" by (rule lookup_absent)
  from cond_walk_undefined_in [OF assms(2) this, of "[l]"] obtain m where
    m: "cond_walk vars right [l] = Inl (UndefinedVariable m)" "lookup vars m = Undefined"
       "QStr (CHR ''v'' # m) \<in> set right" by blast
  have "cond_walk vars (left @ right @ [QStr op]) [] = Inl (UndefinedVariable m)"
    by (simp add: cond_walk_append assms(1) m(1))
  with m show ?thesis by (auto simp: cond_evaluator_def)
qed

lemma compile_conjunction:
  "Conditional_createEvaluator ''x==1 && y==2'' ''test''
     = Inr ([QStr ''vtest:x'', QNum 1, QStr ''==''] @ [QStr ''vtest:y'', QNum 2, QStr ''==''] @ [QStr ''&&''])"
  by code_simp

lemma compile_disjunction:
  "Conditional_createEvaluator ''x==0 || y==2'' ''test''
     = Inr ([QStr ''vtest:x'', QNum 0, QStr ''==''] @ [QStr ''vtest:y'', QNum 2, QStr ''==''] @ [QStr ''||''])"
  by code_simp

text \<open>
  Claim C1 as stated fails: the evaluator does not spare the right operand of a decided
  \<open>&&\<close> or \<open>||\<close> its variable lookups. With \<open>test:x = 0\<close> and \<open>test:y\<close> never written,
  \<open>x==1 && y==2\<close> has a false left operand and \<open>x==0 || y==2\<close> a true one, and both
  evaluations raise the undefined-variable error for \<open>test:y\<close>.
\<close>

theorem short_circuit_still_raises:
  "run_postfix ''x==1 && y==2'' ''test'' [''test:x'' \<mapsto> Number (Fin 0)]
     = Inl (UndefinedVariable ''test:y'')
   \<and> run_postfix ''x==0 || y==2'' ''test'' [''test:x'' \<mapsto> Number (Fin 0)]
     = Inl (UndefinedVariable ''test:y'')"
  by code_simp

text \<open>
  Claim C1, amended. The evaluator of \<open>Conditional.createEvaluator\<close> walks the whole
  compiled queue. Where that queue is the queue of \<open>L\<close>, the queue of \<open>R\<close> and the
  operator, as it is for \<open>x==1 && y==2\<close> and \<open>x==0 || y==2\<close>, and the queue of
  \<open>L\<close> leaves a false value for \<open>&&\<close>, or a true value for \<open>||\<close>, the queue of
  \<open>R\<close> is walked all the same: if \<open>R\<close> refers to a variable that was never
  written, the evaluation raises the undefined-variable error, for a variable of \<open>R\<close>.
  More generally every variable token of a condition that compiles is looked up: one
  that was never written makes the evaluation raise.
\<close>

theorem decided_operator_reads_right_operand:
  "(cond_walk vars left [] = Inr [l] \<and> \<not> toBoolean l
      \<and> QStr (CHR ''v'' # n) \<in> set right \<and> vars n = None
     \<longrightarrow> (\<exists>m. cond_evaluator (left @ right @ [QStr ''&&'']) vars = Inl (UndefinedVariable m)
              \<and> lookup vars m = Undefined \<and> QStr (CHR ''v'' # m) \<in> set right))
   \<and> (cond_walk vars left [] = Inr [l] \<and> toBoolean l
      \<and> QStr (CHR ''v'' # n) \<in> set right \<and> vars n = None
     \<longrightarrow> (\<exists>m. cond_evaluator (left @ right @ [QStr ''||'']) vars = Inl (UndefinedVariable m)
              \<and> lookup vars m = Undefined \<and> QStr (CHR ''v'' # m) \<in> set right))
   \<and> (Conditional_createEvaluator conditional ns = Inr queue
        \<and> t \<in> set (match_all conditionalTokenRegex
                      (replace_all numberRangeRegex (filter (\<lambda>c. \<not> is_space c) conditional)))
        \<and> variableRegex t \<and> parseIdentifier t ns False = Inr ident \<and> vars ident = None
      \<longrightarrow> (\<exists>m. run_postfix conditional ns vars = Inl (UndefinedVariable m)
               \<and> lookup vars m = Undefined))"
proof (intro conjI impI)
  assume "cond_walk vars left [] = Inr [l] \<and> \<not> toBoolean l
      \<and> QStr (CHR ''v'' # n) \<in> set right \<and> vars n = None"
  then show "\<exists>m. cond_evaluator (left @ right @ [QStr ''&&'']) vars = Inl (UndefinedVariable m)
              \<and> lookup vars m = Undefined \<and> QStr (CHR ''v'' # m) \<in> set right"
    using decided_operand by blast
next
  assume "cond_walk vars left [] = Inr [l] \<and> toBoolean l
      \<and> QStr (CHR ''v'' # n) \<in> set right \<and> vars n = None"
  then show "\<exists>m. cond_evaluator (left @ right @ [QStr ''||'']) vars = Inl (UndefinedVariable m)
              \<and> lookup vars m = Undefined \<and> QStr (CHR ''v'' # m) \<in> set right"
    using decided_operand by blast
next
  assume h: "Conditional_createEvaluator conditional ns = Inr queue
        \<and> t \<in> set (match_all conditionalTokenRegex
                      (replace_all numberRangeRegex (filter (\<lambda>c. \<not> is_space c) conditional)))
        \<and> variableRegex t \<and> parseIdentifier t ns False = Inr ident \<and> vars ident = None"
  with Conditional_createEvaluator_variables [of conditional ns queue t]
  have "QStr (CHR ''v'' # ident) \<in> set queue" by auto
  with h obtain m where "cond_evaluator queue vars = Inl (UndefinedVariable m)"
    "lookup vars m = Undefined"
    using cond_evaluator_undefined by blast
  with h show "\<exists>m. run_postfix conditional ns vars = Inl (UndefinedVariable m)
               \<and> lookup vars m = Undefined"
    by (auto simp: run_postfix_def)
qed

theorem decided_operator_reads_right_operand_witness:
  "cond_walk [''test:x'' \<mapsto> Number (Fin 0)] [QStr ''vtest:x'', QNum 1, QStr ''==''] []
     = Inr [Boolean False]
   \<and> \<not> toBoolean (Boolean False)
   \<and> QStr (CHR ''v'' # ''test:y'') \<in> set [QStr ''vtest:y'', QNum 2, QStr ''=='']
   \<and> [''test:x'' \<mapsto> Number (Fin 0)] ''test:y'' = None
   \<and> Conditional_createEvaluator ''x==1 && y==2'' ''test''
       = Inr ([QStr ''vtest:x'', QNum 1, QStr ''==''] @ [QStr ''vtest:y'', QNum 2, QStr ''=='']
              @ [QStr ''&&''])
   \<and> (\<exists>m. cond_evaluator
              ([QStr ''vtest:x'', QNum 1, QStr ''==''] @ [QStr ''vtest:y'', QNum 2, QStr ''=='']
               @ [QStr ''&&''])
              [''test:x'' \<mapsto> Number (Fin 0)] = Inl (UndefinedVariable m)
            \<and> QStr (CHR ''v'' # m) \<in> set [QStr ''vtest:y'', QNum 2, QStr ''==''])
   \<and> cond_walk [''test:x'' \<mapsto> Number (Fin 0)] [QStr ''vtest:x'', QNum 0, QStr ''==''] []
       = Inr [Boolean True]
   \<and> toBoolean (Boolean True)
   \<and> Conditional_createEvaluator ''x==0 || y==2'' ''test''
       = Inr ([QStr ''vtest:x'', QNum 0, QStr ''==''] @ [QStr ''vtest:y'', QNum 2, QStr ''=='']
              @ [QStr ''||''])
   \<and> (\<exists>m. cond_evaluator
              ([QStr ''vtest:x'', QNum 0, QStr ''==''] @ [QStr ''vtest:y'', QNum 2, QStr ''=='']
               @ [QStr ''||''])
              [''test:x'' \<mapsto> Number (Fin 0)] = Inl (UndefinedVariable m)
            \<and> QStr (CHR ''v'' # m) \<in> set [QStr ''vtest:y'', QNum 2, QStr ''==''])
   \<and> ''y'' \<in> set (match_all conditionalTokenRegex
         (replace_all numberRangeRegex (filter (\<lambda>c. \<not> is_space c) ''x==1 && y==2'')))
   \<and> variableRegex ''y''
   \<and> parseIdentifier ''y'' ''test'' False = Inr ''test:y''
   \<and> (\<exists>m. run_postfix ''x==1 && y==2'' ''test'' [''test:x'' \<mapsto> Number (Fin 0)]
            = Inl (UndefinedVariable m))"
proof -
  let ?vars = "[''test:x'' \<mapsto> Number (Fin 0)]"
  let ?false = "[QStr ''vtest:x'', QNum 1, QStr ''=='']"
  let ?true = "[QStr ''vtest:x'', QNum 0, QStr ''=='']"
  let ?right = "[QStr ''vtest:y'', QNum 2, QStr ''=='']"
  have h1: "cond_walk ?vars ?false [] = Inr [Boolean False]"
    by (simp add: postfix_eval_simps)
  have h2: "\<not> toBoolean (Boolean False)" by simp
  have h3: "QStr (CHR ''v'' # ''test:y'') \<in> set ?right" by simp
  have h4: "?vars ''test:y'' = None" by simp
  have h5: "cond_walk ?vars ?true [] = Inr [Boolean True]"
    by (simp add: postfix_eval_simps)
  have h6: "toBoolean (Boolean True)" by simp
  have h7: "''y'' \<in> set (match_all conditionalTokenRegex
         (replace_all numberRangeRegex (filter (\<lambda>c. \<not> is_space c) ''x==1 && y==2'')))"
    by code_simp
  have h8: "variableRegex ''y''" by code_simp
  have h9: "parseIdentifier ''y'' ''test'' False = Inr ''test:y''" by code_simp
  note conj = decided_operator_reads_right_operand [where vars = ?vars and left = ?false
      and l = "Boolean False" and n = "''test:y''" and right = ?right
      and conditional = "''x==1 && y==2''" and ns = "''test''"
      and queue = "?false @ ?right @ [QStr ''&&'']" and t = "''y''" and ident = "''test:y''"]
  note disj = decided_operator_reads_right_operand [where vars = ?vars and left = ?true
      and l = "Boolean True" and n = "''test:y''" and right = ?right]
  from conj h1 h2 h3 h4 have c1: "\<exists>m. cond_evaluator (?false @ ?right @ [QStr ''&&'']) ?vars
      = Inl (UndefinedVariable m) \<and> QStr (CHR ''v'' # m) \<in> set ?right" by blast
  from disj h5 h6 h3 h4 have c2: "\<exists>m. cond_evaluator (?true @ ?right @ [QStr ''||'']) ?vars
      = Inl (UndefinedVariable m) \<and> QStr (CHR ''v'' # m) \<in> set ?right" by blast
  from conj compile_conjunction h7 h8 h9 h4
  have c3: "\<exists>m. run_postfix ''x==1 && y==2'' ''test'' ?vars = Inl (UndefinedVariable m)" by blast
  from h1 h2 h3 h4 compile_conjunction c1 h5 h6 compile_disjunction c2 h7 h8 h9 c3
  show ?thesis by blast
qed

end
